theory Spec2Isabelle
  imports Main
begin

section \<open>Errors and diagnostics\<close>

text \<open>
  An error returned by an AWS API operation. \<open>Code\<close> is the error class the SDK
  reports (the Go type of a \<open>*awstypes.XxxException\<close>, the code compared by
  \<open>tfawserr.ErrCodeEquals\<close>), \<open>Text\<close> is what \<open>err.Error()\<close> prints.
\<close>

datatype aws_error = AwsError (Code: string) (Text: string)

text \<open>\<open>errs.IsA[*awstypes.T](err)\<close> and \<open>tfawserr.ErrCodeEquals(err, code)\<close> on a non-nil error.\<close>

definition ErrCodeEquals :: "aws_error \<Rightarrow> string \<Rightarrow> bool" where
  "ErrCodeEquals err code = (Code err = code)"

definition WAFOptimisticLockException :: string where
  "WAFOptimisticLockException = ''WAFOptimisticLockException''"

definition WAFNonexistentItemException :: string where
  "WAFNonexistentItemException = ''WAFNonexistentItemException''"

definition WAFUnavailableEntityException :: string where
  "WAFUnavailableEntityException = ''WAFUnavailableEntityException''"

definition WAFAssociatedItemException :: string where
  "WAFAssociatedItemException = ''WAFAssociatedItemException''"

text \<open>
  The errors a finder returns: \<open>&retry.NotFoundError{LastError: err}\<close>,
  \<open>tfresource.NewEmptyResultError(input)\<close>, or the API error itself.
\<close>

datatype error = NotFoundError aws_error | EmptyResultError | ApiError aws_error

text \<open>
  \<open>tfresource.NotFound(err)\<close> is true of a \<open>*retry.NotFoundError\<close> and of an
  empty-result error, which converts to one.
\<close>

fun NotFound :: "error \<Rightarrow> bool" where
  "NotFound (NotFoundError e) = True"
| "NotFound EmptyResultError = True"
| "NotFound (ApiError e) = False"

text \<open>The text of \<open>err.Error()\<close>, as \<open>%s\<close> prints it.\<close>

fun ErrorText :: "error \<Rightarrow> string" where
  "ErrorText (NotFoundError e) = ''couldn't find resource''"
| "ErrorText EmptyResultError = ''empty result''"
| "ErrorText (ApiError e) = Text e"

text \<open>
  \<open>diag.Diagnostics\<close>: a list of diagnostics; \<open>nil\<close> (the empty list) is success.
  \<open>diag.Errorf\<close> and \<open>sdkdiag.AppendErrorf\<close> produce one diagnostic of severity error
  whose summary is the formatted message.
\<close>

datatype Diagnostic = ErrorDiag (Summary: string)

type_synonym Diagnostics = "Diagnostic list"

definition Errorf :: "string \<Rightarrow> Diagnostics" where
  "Errorf msg = [ErrorDiag msg]"

definition AppendErrorf :: "Diagnostics \<Rightarrow> string \<Rightarrow> Diagnostics" where
  "AppendErrorf diags msg = diags @ [ErrorDiag msg]"

definition HasError :: "Diagnostics \<Rightarrow> bool" where
  "HasError diags = (diags \<noteq> [])"

section \<open>WAFv2 Web ACL: data\<close>

text \<open>
  \<open>awstypes.Rule\<close>: the name is a \<open>*string\<close>; the remaining fields (priority,
  statement, action, ...) are carried as they are.
\<close>

record Rule =
  Rule_Name :: "string option"
  Rule_Priority :: int
  Rule_Body :: string

text \<open>\<open>aws.ToString\<close>: the empty string for a nil pointer.\<close>

fun ToString :: "string option \<Rightarrow> string" where
  "ToString None = []"
| "ToString (Some s) = s"

text \<open>
  The part of \<open>*schema.ResourceData\<close> the Web ACL callbacks read and write.
  \<open>d_settings\<close> stands for the attributes that are only passed through the
  expanders and flatteners (association_config, captcha_config, challenge_config,
  custom_response_body, default_action, description, token_domains,
  visibility_config).
\<close>

record ResourceData =
  d_Id :: string
  d_IsNewResource :: bool
  d_HasChangesExceptTags :: bool
  d_name :: string
  d_scope :: string
  d_lock_token :: string
  d_rule :: "Rule list"
  d_arn :: string
  d_capacity :: int
  d_application_integration_url :: string
  d_settings :: string

section \<open>The importer\<close>

text \<open>\<open>strings.Split(s, sep)\<close> for a one-byte separator.\<close>

fun Split :: "string \<Rightarrow> char \<Rightarrow> string list" where
  "Split [] sep = [[]]"
| "Split (c # cs) sep =
     (if c = sep then [] # Split cs sep
      else (case Split cs sep of
              [] \<Rightarrow> [[c]]
            | p # ps \<Rightarrow> (c # p) # ps))"

datatype import_error = UnexpectedFormatOfID string

text \<open>The \<open>StateContext\<close> function of the importer of \<open>resourceWebACL\<close>.\<close>

definition importerStateContext :: "ResourceData \<Rightarrow> import_error + ResourceData list" where
  "importerStateContext d =
     (let idParts = Split (d_Id d) CHR ''/'' in
      if length idParts \<noteq> 3 \<or> idParts ! 0 = [] \<or> idParts ! 1 = [] \<or> idParts ! 2 = []
      then Inl (UnexpectedFormatOfID (d_Id d))
      else
        let id = idParts ! 0; name = idParts ! 1; scope = idParts ! 2 in
        Inr [d\<lparr>d_Id := id, d_name := name, d_scope := scope\<rparr>])"

section \<open>WAFv2 Web ACL: the remote service\<close>

record WebACL =
  WebACL_ARN :: "string option"
  WebACL_Name :: "string option"
  WebACL_Capacity :: int
  WebACL_Rules :: "Rule list"
  WebACL_Settings :: string

record GetWebACLInput =
  GetIn_Id :: string
  GetIn_Name :: string
  GetIn_Scope :: string

record GetWebACLOutput =
  Out_WebACL :: "WebACL option"
  Out_LockToken :: "string option"
  Out_ApplicationIntegrationURL :: "string option"

record CreateWebACLInput =
  CreIn_Name :: string
  CreIn_Rules :: "Rule list"
  CreIn_Scope :: string
  CreIn_Settings :: string

record CreateWebACLOutput =
  CreOut_Summary_Id :: "string option option"

record UpdateWebACLInput =
  UpdIn_Id :: string
  UpdIn_LockToken :: "string option"
  UpdIn_Name :: string
  UpdIn_Rules :: "Rule list"
  UpdIn_Scope :: string
  UpdIn_Settings :: string

record DeleteWebACLInput =
  DelIn_Id :: string
  DelIn_LockToken :: "string option"
  DelIn_Name :: string
  DelIn_Scope :: string

text \<open>
  A request sent to the service, and the log of the requests of a callback, each with
  the error it got (\<open>None\<close> when it succeeded).
\<close>

datatype call =
    CallCreateWebACL CreateWebACLInput
  | CallGetWebACL GetWebACLInput
  | CallUpdateWebACL UpdateWebACLInput
  | CallDeleteWebACL DeleteWebACLInput

type_synonym event = "call \<times> aws_error option"

text \<open>
  \<open>*wafv2.Client\<close>: what the remote service answers to a request, which may depend on
  every request made before (other processes change the web ACL between two requests).
  \<open>attempts\<close> is the number of further attempts for which the timeout of a retry loop
  started at this point leaves time.
\<close>

record Client =
  CreateWebACL_response :: "event list \<Rightarrow> CreateWebACLInput \<Rightarrow> aws_error + CreateWebACLOutput"
  GetWebACL_response :: "event list \<Rightarrow> GetWebACLInput \<Rightarrow> aws_error + GetWebACLOutput option"
  UpdateWebACL_response :: "event list \<Rightarrow> UpdateWebACLInput \<Rightarrow> aws_error + unit"
  DeleteWebACL_response :: "event list \<Rightarrow> DeleteWebACLInput \<Rightarrow> aws_error + unit"
  attempts :: "event list \<Rightarrow> nat"

fun err_of :: "aws_error + 'a \<Rightarrow> aws_error option" where
  "err_of (Inl e) = Some e"
| "err_of (Inr v) = None"

definition CreateWebACL ::
  "Client \<Rightarrow> CreateWebACLInput \<Rightarrow> event list \<Rightarrow> (aws_error + CreateWebACLOutput) \<times> event list" where
  "CreateWebACL conn input h =
     (let r = CreateWebACL_response conn h input in (r, h @ [(CallCreateWebACL input, err_of r)]))"

definition GetWebACL ::
  "Client \<Rightarrow> GetWebACLInput \<Rightarrow> event list \<Rightarrow> (aws_error + GetWebACLOutput option) \<times> event list" where
  "GetWebACL conn input h =
     (let r = GetWebACL_response conn h input in (r, h @ [(CallGetWebACL input, err_of r)]))"

definition UpdateWebACL ::
  "Client \<Rightarrow> UpdateWebACLInput \<Rightarrow> event list \<Rightarrow> (aws_error + unit) \<times> event list" where
  "UpdateWebACL conn input h =
     (let r = UpdateWebACL_response conn h input in (r, h @ [(CallUpdateWebACL input, err_of r)]))"

definition DeleteWebACL ::
  "Client \<Rightarrow> DeleteWebACLInput \<Rightarrow> event list \<Rightarrow> (aws_error + unit) \<times> event list" where
  "DeleteWebACL conn input h =
     (let r = DeleteWebACL_response conn h input in (r, h @ [(CallDeleteWebACL input, err_of r)]))"

text \<open>
  Modelled from the spec: \<open>tfresource.RetryWhenIsA\<close> and \<open>tfresource.RetryWhenIsOneOf2\<close>
  are not under src/; the spec calls them "a bounded retry-on-conflict pattern already
  provided by a library". The function is called again as long as its error is of one of
  the given classes and the timeout leaves time; the result of the last call is returned.
  The first argument counts the attempts the timeout still allows after the first one.
\<close>

fun RetryWhen ::
  "nat \<Rightarrow> (aws_error \<Rightarrow> bool) \<Rightarrow> ('s \<Rightarrow> (aws_error + 'a) \<times> 's) \<Rightarrow> 's \<Rightarrow> (aws_error + 'a) \<times> 's" where
  "RetryWhen 0 retryable f s = f s"
| "RetryWhen (Suc n) retryable f s =
     (case f s of
        (Inl err, s') \<Rightarrow> if retryable err then RetryWhen n retryable f s' else (Inl err, s')
      | (Inr v, s') \<Rightarrow> (Inr v, s'))"

definition RetryWhenIsA ::
  "string \<Rightarrow> Client \<Rightarrow> (event list \<Rightarrow> (aws_error + 'a) \<times> event list) \<Rightarrow> event list
     \<Rightarrow> (aws_error + 'a) \<times> event list" where
  "RetryWhenIsA T conn f h = RetryWhen (attempts conn h) (\<lambda>err. ErrCodeEquals err T) f h"

definition RetryWhenIsOneOf2 ::
  "string \<Rightarrow> string \<Rightarrow> Client \<Rightarrow> (event list \<Rightarrow> (aws_error + 'a) \<times> event list) \<Rightarrow> event list
     \<Rightarrow> (aws_error + 'a) \<times> event list" where
  "RetryWhenIsOneOf2 T1 T2 conn f h =
     RetryWhen (attempts conn h) (\<lambda>err. ErrCodeEquals err T1 \<or> ErrCodeEquals err T2) f h"

section \<open>WAFv2 Web ACL: finder and Shield rule helpers\<close>

definition findWebACLByThreePartKey ::
  "Client \<Rightarrow> string \<Rightarrow> string \<Rightarrow> string \<Rightarrow> event list \<Rightarrow> (error + GetWebACLOutput) \<times> event list" where
  "findWebACLByThreePartKey conn id' name scope h =
     (let input = \<lparr>GetIn_Id = id', GetIn_Name = name, GetIn_Scope = scope\<rparr> in
      case GetWebACL conn input h of
        (Inl err, h') \<Rightarrow>
          if ErrCodeEquals err WAFNonexistentItemException then (Inl (NotFoundError err), h')
          else (Inl (ApiError err), h')
      | (Inr output, h') \<Rightarrow>
          (case output of
             None \<Rightarrow> (Inl EmptyResultError, h')
           | Some out \<Rightarrow>
               if Out_WebACL out = None then (Inl EmptyResultError, h') else (Inr out, h')))"

text \<open>
  The regular expression of \<open>findShieldRule\<close>,
  \<^verbatim>\<open>^ShieldMitigationRuleGroup_\d{12}_[0-9A-Fa-f]{8}-[0-9A-Fa-f]{4}-[0-9A-Fa-f]{4}-[0-9A-Fa-f]{4}-[0-9A-Fa-f]{12}_.*\<close>:
  it is anchored at the start only, every item before the final \<^verbatim>\<open>.*\<close> has a fixed
  length, and \<^verbatim>\<open>.*\<close> also matches the empty string, so a name matches when it starts
  with the fixed items in order.
\<close>

datatype pattern_item = Lit string | Digits nat | HexDigits nat

definition isDigit :: "char \<Rightarrow> bool" where
  "isDigit c = (c \<in> set ''0123456789'')"

definition isHexDigit :: "char \<Rightarrow> bool" where
  "isHexDigit c = (c \<in> set ''0123456789ABCDEFabcdef'')"

fun matchPrefix :: "pattern_item list \<Rightarrow> string \<Rightarrow> bool" where
  "matchPrefix [] s = True"
| "matchPrefix (Lit l # ps) s =
     (take (length l) s = l \<and> matchPrefix ps (drop (length l) s))"
| "matchPrefix (Digits n # ps) s =
     (n \<le> length s \<and> list_all isDigit (take n s) \<and> matchPrefix ps (drop n s))"
| "matchPrefix (HexDigits n # ps) s =
     (n \<le> length s \<and> list_all isHexDigit (take n s) \<and> matchPrefix ps (drop n s))"

definition shieldPattern :: "pattern_item list" where
  "shieldPattern =
     [Lit ''ShieldMitigationRuleGroup_'', Digits 12, Lit ''_'',
      HexDigits 8, Lit ''-'', HexDigits 4, Lit ''-'', HexDigits 4, Lit ''-'', HexDigits 4,
      Lit ''-'', HexDigits 12, Lit ''_'']"

definition MatchString :: "string \<Rightarrow> bool" where
  "MatchString s = matchPrefix shieldPattern s"

fun findShieldRule :: "Rule list \<Rightarrow> Rule list" where
  "findShieldRule [] = []"
| "findShieldRule (r # rules) =
     (if MatchString (ToString (Rule_Name r)) then r # findShieldRule rules
      else findShieldRule rules)"

text \<open>The inner loop of \<open>filterWebACLRules\<close>: the flag \<open>filter\<close> is cleared when a configured rule has the name.\<close>

fun inConfigLoop :: "bool \<Rightarrow> Rule list \<Rightarrow> Rule \<Rightarrow> bool" where
  "inConfigLoop filter' [] r = filter'"
| "inConfigLoop filter' (cr # configRules) r =
     (if ToString (Rule_Name cr) = ToString (Rule_Name r) then inConfigLoop False configRules r
      else inConfigLoop filter' configRules r)"

text \<open>The outer loop of \<open>filterWebACLRules\<close>, with \<open>sr0\<close> for \<open>sr[0]\<close> and \<open>fr\<close> the rules kept so far.\<close>

fun filterLoop :: "Rule \<Rightarrow> Rule list \<Rightarrow> Rule list \<Rightarrow> Rule list \<Rightarrow> Rule list" where
  "filterLoop sr0 configRules fr [] = fr"
| "filterLoop sr0 configRules fr (r # rules) =
     (if ToString (Rule_Name r) = ToString (Rule_Name sr0) \<and> inConfigLoop True configRules r
      then filterLoop sr0 configRules fr rules
      else filterLoop sr0 configRules (fr @ [r]) rules)"

definition filterWebACLRules :: "Rule list \<Rightarrow> Rule list \<Rightarrow> Rule list" where
  "filterWebACLRules rules configRules =
     (case findShieldRule rules of
        [] \<Rightarrow> rules
      | sr0 # sr \<Rightarrow> filterLoop sr0 configRules [] rules)"

section \<open>WAFv2 Web ACL: the callbacks\<close>

text \<open>
  A callback returns its diagnostics and leaves the resource data changed; dereferencing
  a nil pointer (\<open>output.WebACL\<close>, \<open>output.Summary\<close>) panics.
\<close>

datatype 'a outcome = Panic | Return 'a

type_synonym callback_result = "(Diagnostics \<times> ResourceData) outcome \<times> event list"

text \<open>
  \<open>resourceWebACLRead\<close>. The flatteners are not under src/; every \<open>d.Set\<close> is taken to
  succeed, and \<open>d_settings\<close> receives the settings of the remote web ACL.
\<close>

definition resourceWebACLRead :: "Client \<Rightarrow> ResourceData \<Rightarrow> event list \<Rightarrow> callback_result" where
  "resourceWebACLRead conn d h =
     (case findWebACLByThreePartKey conn (d_Id d) (d_name d) (d_scope d) h of
        (Inl err, h') \<Rightarrow>
          if \<not> d_IsNewResource d \<and> NotFound err then (Return ([], d\<lparr>d_Id := []\<rparr>), h')
          else (Return (Errorf (''reading WAFv2 WebACL ('' @ d_Id d @ ''): '' @ ErrorText err), d), h')
      | (Inr output, h') \<Rightarrow>
          (case Out_WebACL output of
             None \<Rightarrow> (Panic, h')
           | Some webACL \<Rightarrow>
               (Return ([], d\<lparr>d_application_integration_url := ToString (Out_ApplicationIntegrationURL output),
                              d_arn := ToString (WebACL_ARN webACL),
                              d_capacity := WebACL_Capacity webACL,
                              d_settings := WebACL_Settings webACL,
                              d_lock_token := ToString (Out_LockToken output),
                              d_name := ToString (WebACL_Name webACL),
                              d_rule := filterWebACLRules (WebACL_Rules webACL) (d_rule d)\<rparr>), h')))"

definition resourceWebACLCreate :: "Client \<Rightarrow> ResourceData \<Rightarrow> event list \<Rightarrow> callback_result" where
  "resourceWebACLCreate conn d h =
     (let name = d_name d;
          input = \<lparr>CreIn_Name = name, CreIn_Rules = d_rule d, CreIn_Scope = d_scope d,
                   CreIn_Settings = d_settings d\<rparr>
      in case RetryWhenIsA WAFUnavailableEntityException conn (CreateWebACL conn input) h of
           (Inl err, h') \<Rightarrow>
             (Return (Errorf (''creating WAFv2 WebACL ('' @ name @ ''): '' @ Text err), d), h')
         | (Inr output, h') \<Rightarrow>
             (case CreOut_Summary_Id output of
                None \<Rightarrow> (Panic, h')
              | Some i \<Rightarrow> resourceWebACLRead conn (d\<lparr>d_Id := ToString i\<rparr>) h'))"

definition retryResourceWebACLUpdateOptmisticLockFailure ::
  "Client \<Rightarrow> string \<Rightarrow> string \<Rightarrow> string \<Rightarrow> string \<Rightarrow> UpdateWebACLInput \<Rightarrow> event list
     \<Rightarrow> Diagnostics \<times> event list" where
  "retryResourceWebACLUpdateOptmisticLockFailure conn id' name scope lockToken input h =
     (case findWebACLByThreePartKey conn id' name scope h of
        (Inl err, h1) \<Rightarrow>
          (Errorf (''refreshing WAFv2 WebACL ('' @ id' @
                   ''), attempting to refresh WAFv2 WebACL to retrieve new LockToken: '' @ ErrorText err), h1)
      | (Inr webAcl, h1) \<Rightarrow>
          if ToString (Out_LockToken webAcl) \<noteq> lockToken then
            (case RetryWhenIsOneOf2 WAFAssociatedItemException WAFUnavailableEntityException conn
                    (UpdateWebACL conn (input\<lparr>UpdIn_LockToken := Out_LockToken webAcl\<rparr>)) h1 of
               (Inl err, h2) \<Rightarrow>
                 if ErrCodeEquals err WAFOptimisticLockException then
                   (Errorf (''updating WAFv2 WebACL ('' @ id' @
                            ''), resource has changed since last refresh please run a new plan before applying again: ''
                            @ Text err), h2)
                 else ([], h2)
             | (Inr v, h2) \<Rightarrow> ([], h2))
          else ([], h1))"

text \<open>Lines 293 to 331 of \<open>resourceWebACLUpdate\<close>: the request is built from \<open>rules\<close> and sent.\<close>

definition resourceWebACLUpdate_send ::
  "Client \<Rightarrow> ResourceData \<Rightarrow> Rule list \<Rightarrow> event list \<Rightarrow> callback_result" where
  "resourceWebACLUpdate_send conn d rules h =
     (let aclID = d_Id d; aclName = d_name d; aclScope = d_scope d; aclLockToken = d_lock_token d;
          input = \<lparr>UpdIn_Id = aclID, UpdIn_LockToken = Some aclLockToken, UpdIn_Name = aclName,
                   UpdIn_Rules = rules, UpdIn_Scope = aclScope, UpdIn_Settings = d_settings d\<rparr>
      in case RetryWhenIsA WAFUnavailableEntityException conn (UpdateWebACL conn input) h of
           (Inl err, h') \<Rightarrow>
             if ErrCodeEquals err WAFOptimisticLockException then
               (case retryResourceWebACLUpdateOptmisticLockFailure conn aclID aclName aclScope
                       aclLockToken input h' of
                  (diags, h'') \<Rightarrow> (Return (diags, d), h''))
             else (Return (Errorf (''updating WAFv2 WebACL ('' @ d_Id d @ ''): '' @ Text err), d), h')
         | (Inr v, h') \<Rightarrow> resourceWebACLRead conn d h')"

text \<open>
  Lines 284 to 291 of \<open>resourceWebACLUpdate\<close>: the rules to send, which are the
  configured rules and, when none of them is a Shield rule, the Shield rules of the remote
  web ACL.
\<close>

definition resourceWebACLUpdate_rules ::
  "Client \<Rightarrow> ResourceData \<Rightarrow> event list \<Rightarrow> (Diagnostics + Rule list) outcome \<times> event list" where
  "resourceWebACLUpdate_rules conn d h =
     (let aclID = d_Id d; aclName = d_name d; aclScope = d_scope d;
          rules = d_rule d
      in if findShieldRule rules = [] then
           (case findWebACLByThreePartKey conn aclID aclName aclScope h of
              (Inl err, h') \<Rightarrow>
                (Return (Inl (Errorf (''reading WAFv2 WebACL ('' @ aclID @ ''): '' @ ErrorText err))), h')
            | (Inr output, h') \<Rightarrow>
                (case Out_WebACL output of
                   None \<Rightarrow> (Panic, h')
                 | Some webACL \<Rightarrow> (Return (Inr (rules @ findShieldRule (WebACL_Rules webACL))), h')))
         else (Return (Inr rules), h))"

definition resourceWebACLUpdate :: "Client \<Rightarrow> ResourceData \<Rightarrow> event list \<Rightarrow> callback_result" where
  "resourceWebACLUpdate conn d h =
     (if d_HasChangesExceptTags d then
        (case resourceWebACLUpdate_rules conn d h of
           (Panic, h') \<Rightarrow> (Panic, h')
         | (Return (Inl diags), h') \<Rightarrow> (Return (diags, d), h')
         | (Return (Inr rules), h') \<Rightarrow> resourceWebACLUpdate_send conn d rules h')
      else resourceWebACLRead conn d h)"

definition retryResourceWebACLDeleteOptmisticLockFailure ::
  "Client \<Rightarrow> string \<Rightarrow> string \<Rightarrow> string \<Rightarrow> string \<Rightarrow> event list \<Rightarrow> Diagnostics \<times> event list" where
  "retryResourceWebACLDeleteOptmisticLockFailure conn id' name scope lockToken h =
     (case findWebACLByThreePartKey conn id' name scope h of
        (Inl err, h1) \<Rightarrow>
          (Errorf (''refreshing WAFv2 WebACL ('' @ id' @
                   ''), attempting to refresh WAFv2 WebACL to retrieve new LockToken: '' @ ErrorText err), h1)
      | (Inr webAcl, h1) \<Rightarrow>
          if ToString (Out_LockToken webAcl) \<noteq> lockToken then
            (let retryInput = \<lparr>DelIn_Id = id', DelIn_LockToken = Out_LockToken webAcl,
                                DelIn_Name = name, DelIn_Scope = scope\<rparr>
             in case RetryWhenIsOneOf2 WAFAssociatedItemException WAFUnavailableEntityException conn
                       (DeleteWebACL conn retryInput) h1 of
                  (Inl err, h2) \<Rightarrow>
                    if ErrCodeEquals err WAFOptimisticLockException then
                      (Errorf (''deleting WAFv2 WebACL ('' @ id' @
                               ''), resource has changed since last refresh please run a new plan before applying again: ''
                               @ Text err), h2)
                    else ([], h2)
                | (Inr v, h2) \<Rightarrow> ([], h2))
          else ([], h1))"

definition resourceWebACLDelete :: "Client \<Rightarrow> ResourceData \<Rightarrow> event list \<Rightarrow> Diagnostics \<times> event list" where
  "resourceWebACLDelete conn d h =
     (let aclId = d_Id d; aclName = d_name d; aclScope = d_scope d; aclLockToken = d_lock_token d;
          input = \<lparr>DelIn_Id = aclId, DelIn_LockToken = Some aclLockToken, DelIn_Name = aclName,
                   DelIn_Scope = aclScope\<rparr>
      in case RetryWhenIsOneOf2 WAFAssociatedItemException WAFUnavailableEntityException conn
                (DeleteWebACL conn input) h of
           (Inl err, h') \<Rightarrow>
             if ErrCodeEquals err WAFOptimisticLockException then
               retryResourceWebACLDeleteOptmisticLockFailure conn aclId aclName aclScope aclLockToken h'
             else if ErrCodeEquals err WAFNonexistentItemException then ([], h')
             else (Errorf (''deleting WAFv2 WebACL ('' @ d_Id d @ ''): '' @ Text err), h')
         | (Inr v, h') \<Rightarrow> ([], h'))"

section \<open>Transfer certificate\<close>

text \<open>
  The attributes the callbacks of \<open>aws_transfer_certificate\<close> use; \<open>cd_attributes\<close>
  stands for the attributes that are only copied (active_date, arn, certificate,
  certificate_chain, certificate_id, inactive_date, private_key, usage, tags).
\<close>

record CertificateData =
  cd_Id :: string
  cd_IsNewResource :: bool
  cd_HasChange_description :: bool
  cd_description :: string
  cd_attributes :: string

record DescribedCertificate =
  Cert_Description :: "string option"
  Cert_Attributes :: string

record ImportCertificateInput =
  ImpIn_Description :: "string option"
  ImpIn_Attributes :: string

text \<open>
  \<open>*transfer.Transfer\<close>, one response for each operation a callback calls, and the result
  of \<open>FindCertificateByID\<close>, which is not under src/.
\<close>

record TransferConn =
  ImportCertificate_response :: "ImportCertificateInput \<Rightarrow> aws_error + string option"
  FindCertificateByID_result :: "string \<Rightarrow> error + DescribedCertificate"
  UpdateCertificate_response :: "string \<Rightarrow> string \<Rightarrow> aws_error + unit"
  DeleteCertificate_response :: "string \<Rightarrow> aws_error + unit"

definition transfer_ErrCodeResourceNotFoundException :: string where
  "transfer_ErrCodeResourceNotFoundException = ''ResourceNotFoundException''"

definition resourceCertificateRead :: "TransferConn \<Rightarrow> CertificateData \<Rightarrow> Diagnostics \<times> CertificateData" where
  "resourceCertificateRead conn d =
     (let diags = [] in
      case FindCertificateByID_result conn (cd_Id d) of
        Inl err \<Rightarrow>
          if \<not> cd_IsNewResource d \<and> NotFound err then (diags, d\<lparr>cd_Id := []\<rparr>)
          else (AppendErrorf diags (''reading Transfer Certificate ('' @ cd_Id d @ ''): '' @ ErrorText err), d)
      | Inr output \<Rightarrow>
          (diags, d\<lparr>cd_description := ToString (Cert_Description output),
                    cd_attributes := Cert_Attributes output\<rparr>))"

text \<open>\<open>d.GetOk\<close> of a string attribute: the value is there when it is not empty.\<close>

definition GetOk :: "string \<Rightarrow> string option" where
  "GetOk v = (if v = [] then None else Some v)"

definition resourceCertificateCreate :: "TransferConn \<Rightarrow> CertificateData \<Rightarrow> Diagnostics \<times> CertificateData" where
  "resourceCertificateCreate conn d =
     (let diags = [];
          input = \<lparr>ImpIn_Description = GetOk (cd_description d), ImpIn_Attributes = cd_attributes d\<rparr>
      in case ImportCertificate_response conn input of
           Inl err \<Rightarrow> (AppendErrorf diags (''importing Transfer Certificate: '' @ Text err), d)
         | Inr certificateId \<Rightarrow>
             (case resourceCertificateRead conn (d\<lparr>cd_Id := ToString certificateId\<rparr>) of
                (diags', d') \<Rightarrow> (diags @ diags', d')))"

definition resourceCertificateUpdate :: "TransferConn \<Rightarrow> CertificateData \<Rightarrow> Diagnostics \<times> CertificateData" where
  "resourceCertificateUpdate conn d =
     (let diags = [];
          r = (if cd_HasChange_description d
               then UpdateCertificate_response conn (cd_Id d) (cd_description d) else Inr ())
      in case r of
           Inl err \<Rightarrow>
             (AppendErrorf diags (''updating Transfer Certificate ('' @ cd_Id d @ ''): '' @ Text err), d)
         | Inr v \<Rightarrow>
             (case resourceCertificateRead conn d of (diags', d') \<Rightarrow> (diags @ diags', d')))"

definition resourceCertificateDelete :: "TransferConn \<Rightarrow> CertificateData \<Rightarrow> Diagnostics" where
  "resourceCertificateDelete conn d =
     (let diags = [] in
      case DeleteCertificate_response conn (cd_Id d) of
        Inl err \<Rightarrow>
          if ErrCodeEquals err transfer_ErrCodeResourceNotFoundException then diags
          else AppendErrorf diags (''deleting Transfer Certificate ('' @ cd_Id d @ ''): '' @ Text err)
      | Inr v \<Rightarrow> diags)"

section \<open>DeviceFarm upload\<close>

record UploadData =
  ud_Id :: string
  ud_IsNewResource :: bool
  ud_HasChange_name :: bool
  ud_HasChange_content_type :: bool
  ud_name :: string
  ud_type :: string
  ud_content_type :: string
  ud_project_arn :: string
  ud_arn :: string
  ud_attributes :: string

record Upload =
  Upload_Arn :: "string option"
  Upload_Name :: "string option"
  Upload_Type :: "string option"
  Upload_ContentType :: "string option"
  Upload_Attributes :: string

record CreateUploadInput =
  CuIn_Name :: string
  CuIn_ProjectArn :: string
  CuIn_Type :: string
  CuIn_ContentType :: "string option"

record UpdateUploadInput =
  UuIn_Arn :: string
  UuIn_Name :: "string option"
  UuIn_ContentType :: "string option"

text \<open>
  \<open>*devicefarm.DeviceFarm\<close>, with the results of \<open>FindUploadByARN\<close> and
  \<open>decodeProjectARN\<close>, which are not under src/. \<open>CreateUpload\<close> answers with the
  \<open>Upload\<close> pointer of its output.
\<close>

record DeviceFarmConn =
  CreateUpload_response :: "CreateUploadInput \<Rightarrow> aws_error + Upload option"
  FindUploadByARN_result :: "string \<Rightarrow> error + Upload"
  UpdateUpload_response :: "UpdateUploadInput \<Rightarrow> aws_error + unit"
  DeleteUpload_response :: "string \<Rightarrow> aws_error + unit"
  decodeProjectARN :: "string \<Rightarrow> string + string"

definition devicefarm_ErrCodeNotFoundException :: string where
  "devicefarm_ErrCodeNotFoundException = ''NotFoundException''"

definition resourceUploadRead :: "DeviceFarmConn \<Rightarrow> UploadData \<Rightarrow> Diagnostics \<times> UploadData" where
  "resourceUploadRead conn d =
     (let diags = [] in
      case FindUploadByARN_result conn (ud_Id d) of
        Inl err \<Rightarrow>
          if \<not> ud_IsNewResource d \<and> NotFound err then (diags, d\<lparr>ud_Id := []\<rparr>)
          else (AppendErrorf diags (''reading DeviceFarm Upload ('' @ ud_Id d @ ''): '' @ ErrorText err), d)
      | Inr upload \<Rightarrow>
          (let arn = ToString (Upload_Arn upload);
               d1 = d\<lparr>ud_name := ToString (Upload_Name upload),
                       ud_type := ToString (Upload_Type upload),
                       ud_content_type := ToString (Upload_ContentType upload),
                       ud_attributes := Upload_Attributes upload,
                       ud_arn := arn\<rparr>
           in case decodeProjectARN conn arn of
                Inl msg \<Rightarrow> (AppendErrorf diags (''decoding project_arn ('' @ arn @ ''): '' @ msg), d1)
              | Inr projectArn \<Rightarrow> (diags, d1\<lparr>ud_project_arn := projectArn\<rparr>)))"

definition resourceUploadCreate ::
  "DeviceFarmConn \<Rightarrow> UploadData \<Rightarrow> (Diagnostics \<times> UploadData) outcome" where
  "resourceUploadCreate conn d =
     (let diags = [];
          input = \<lparr>CuIn_Name = ud_name d, CuIn_ProjectArn = ud_project_arn d, CuIn_Type = ud_type d,
                   CuIn_ContentType = GetOk (ud_content_type d)\<rparr>
      in case CreateUpload_response conn input of
           Inl err \<Rightarrow> Return (AppendErrorf diags (''creating DeviceFarm Upload: '' @ Text err), d)
         | Inr None \<Rightarrow> Panic
         | Inr (Some upload) \<Rightarrow>
             (let arn = ToString (Upload_Arn upload) in
              case resourceUploadRead conn (d\<lparr>ud_Id := arn\<rparr>) of
                (diags', d') \<Rightarrow> Return (diags @ diags', d')))"

definition resourceUploadUpdate :: "DeviceFarmConn \<Rightarrow> UploadData \<Rightarrow> Diagnostics \<times> UploadData" where
  "resourceUploadUpdate conn d =
     (let diags = [];
          input = \<lparr>UuIn_Arn = ud_Id d,
                   UuIn_Name = (if ud_HasChange_name d then Some (ud_name d) else None),
                   UuIn_ContentType =
                     (if ud_HasChange_content_type d then Some (ud_content_type d) else None)\<rparr>
      in case UpdateUpload_response conn input of
           Inl err \<Rightarrow>
             (AppendErrorf diags (''updating DeviceFarm Upload ('' @ ud_Id d @ ''): '' @ Text err), d)
         | Inr v \<Rightarrow>
             (case resourceUploadRead conn d of (diags', d') \<Rightarrow> (diags @ diags', d')))"

definition resourceUploadDelete :: "DeviceFarmConn \<Rightarrow> UploadData \<Rightarrow> Diagnostics" where
  "resourceUploadDelete conn d =
     (let diags = [] in
      case DeleteUpload_response conn (ud_Id d) of
        Inl err \<Rightarrow>
          if ErrCodeEquals err devicefarm_ErrCodeNotFoundException then diags
          else AppendErrorf diags (''deleting DeviceFarm Upload: '' @ Text err)
      | Inr v \<Rightarrow> diags)"

section \<open>EC2: the VPC page finder\<close>

record Vpc =
  Vpc_VpcId :: "string option"
  Vpc_CidrBlock :: "string option"

record DescribeVpcsOutput =
  Vpcs :: "Vpc list"

text \<open>
  The \<open>DescribeVpcs\<close> paginator, as the results of its successive \<open>NextPage\<close> calls:
  \<open>HasMorePages\<close> is true as long as a result is left. The loop of \<open>findVPCsV2\<close> takes
  the output collected so far; the error code \<open>errCodeInvalidVPCIDNotFound\<close> is declared
  outside src/ and is a parameter.
\<close>

type_synonym DescribeVpcsPaginator = "(aws_error + DescribeVpcsOutput) list"

fun findVPCsV2_loop :: "string \<Rightarrow> Vpc list \<Rightarrow> DescribeVpcsPaginator \<Rightarrow> error + Vpc list" where
  "findVPCsV2_loop errCodeInvalidVPCIDNotFound output [] = Inr output"
| "findVPCsV2_loop errCodeInvalidVPCIDNotFound output (Inl err # pages) =
     (if ErrCodeEquals err errCodeInvalidVPCIDNotFound then Inl (NotFoundError err)
      else Inl (ApiError err))"
| "findVPCsV2_loop errCodeInvalidVPCIDNotFound output (Inr page # pages) =
     findVPCsV2_loop errCodeInvalidVPCIDNotFound (output @ Vpcs page) pages"

definition findVPCsV2 :: "string \<Rightarrow> DescribeVpcsPaginator \<Rightarrow> error + Vpc list" where
  "findVPCsV2 errCodeInvalidVPCIDNotFound pages =
     findVPCsV2_loop errCodeInvalidVPCIDNotFound [] pages"

section \<open>Observing the requests of a callback\<close>

text \<open>An event is a conflict when its request failed with \<open>WAFOptimisticLockException\<close>.\<close>

definition isConflict :: "event \<Rightarrow> bool" where
  "isConflict ev =
     (case snd ev of None \<Rightarrow> False | Some err \<Rightarrow> ErrCodeEquals err WAFOptimisticLockException)"

text \<open>
  An event is transient when its request failed with one of the errors the retry helper
  is told to retry.
\<close>

definition isTransient :: "event \<Rightarrow> bool" where
  "isTransient ev =
     (case snd ev of
        None \<Rightarrow> False
      | Some err \<Rightarrow> ErrCodeEquals err WAFAssociatedItemException
                   \<or> ErrCodeEquals err WAFUnavailableEntityException)"

definition isNonexistent :: "event \<Rightarrow> bool" where
  "isNonexistent ev =
     (case snd ev of None \<Rightarrow> False | Some err \<Rightarrow> ErrCodeEquals err WAFNonexistentItemException)"

fun isGetCall :: "call \<Rightarrow> bool" where
  "isGetCall (CallGetWebACL i) = True"
| "isGetCall c = False"

fun isUpdateCall :: "call \<Rightarrow> bool" where
  "isUpdateCall (CallUpdateWebACL i) = True"
| "isUpdateCall c = False"

fun isDeleteCall :: "call \<Rightarrow> bool" where
  "isDeleteCall (CallDeleteWebACL i) = True"
| "isDeleteCall c = False"

text \<open>
  The number of conflict-triggered re-attempts in a log: the mutation requests whose
  preceding mutation request ended in a conflict. \<open>pending\<close> tells whether the last
  mutation request so far ended in a conflict.
\<close>

fun conflictRetries :: "(call \<Rightarrow> bool) \<Rightarrow> bool \<Rightarrow> event list \<Rightarrow> nat" where
  "conflictRetries mutation pending [] = 0"
| "conflictRetries mutation pending (ev # es) =
     (if mutation (fst ev)
      then (if pending then 1 else 0) + conflictRetries mutation (isConflict ev) es
      else conflictRetries mutation pending es)"

fun pendingAfter :: "(call \<Rightarrow> bool) \<Rightarrow> bool \<Rightarrow> event list \<Rightarrow> bool" where
  "pendingAfter mutation pending [] = pending"
| "pendingAfter mutation pending (ev # es) =
     pendingAfter mutation (if mutation (fst ev) then isConflict ev else pending) es"

text \<open>
  The error classes a callback gives to the retry helper for a request: none for
  \<open>GetWebACL\<close>, which is not sent through the helper.
\<close>

fun retriedClasses :: "call \<Rightarrow> string list" where
  "retriedClasses (CallCreateWebACL i) = [WAFUnavailableEntityException]"
| "retriedClasses (CallGetWebACL i) = []"
| "retriedClasses (CallUpdateWebACL i) = [WAFUnavailableEntityException]"
| "retriedClasses (CallDeleteWebACL i) = [WAFAssociatedItemException, WAFUnavailableEntityException]"

text \<open>
  A request carries the held token when it is not an update or delete request sent again
  with a refreshed lock token.
\<close>

fun heldToken :: "ResourceData \<Rightarrow> call \<Rightarrow> bool" where
  "heldToken d (CallUpdateWebACL i) = (UpdIn_LockToken i = Some (d_lock_token d))"
| "heldToken d (CallDeleteWebACL i) = (DelIn_LockToken i = Some (d_lock_token d))"
| "heldToken d c = True"

text \<open>
  An event of the other classes: a request carrying the held token that failed with an
  error which is neither not-found, nor an optimistic-lock conflict, nor of a class given
  to the retry helper for that request.
\<close>

definition isOtherError :: "ResourceData \<Rightarrow> event \<Rightarrow> bool" where
  "isOtherError d ev =
     (case snd ev of
        None \<Rightarrow> False
      | Some err \<Rightarrow>
          \<not> ErrCodeEquals err WAFNonexistentItemException
          \<and> \<not> ErrCodeEquals err WAFOptimisticLockException
          \<and> Code err \<notin> set (retriedClasses (fst ev))
          \<and> heldToken d (fst ev))"

text \<open>The diagnostics a callback returns, when it returns.\<close>

fun diagnosticsOf :: "(Diagnostics \<times> 'a) outcome \<Rightarrow> Diagnostics option" where
  "diagnosticsOf Panic = None"
| "diagnosticsOf (Return (diags, d)) = Some diags"

text \<open>
  A log in which no event before the last one is of the other classes, and whose last
  event, when it is of the other classes, has its error returned in the one diagnostic.
\<close>

definition surfacesOther :: "ResourceData \<Rightarrow> Diagnostics option \<Rightarrow> event list \<Rightarrow> bool" where
  "surfacesOther d dg new =
     (\<exists>F l. new = F @ [l]
        \<and> (\<forall>ev \<in> set F. \<not> isOtherError d ev)
        \<and> (isOtherError d l \<longrightarrow>
             (\<exists>err msg. snd l = Some err \<and> dg = Some [ErrorDiag (msg @ Text err)])))"

section \<open>A scripted service\<close>

text \<open>
  A service that answers the \<open>n\<close>-th request of each kind with the \<open>n\<close>-th entry of a
  script, and with an internal error once the script is used up.
\<close>

definition unscripted :: aws_error where
  "unscripted = AwsError ''WAFInternalErrorException'' ''unscripted request''"

definition nthOr :: "'a \<Rightarrow> 'a list \<Rightarrow> nat \<Rightarrow> 'a" where
  "nthOr dflt xs n = (if n < length xs then xs ! n else dflt)"

definition countCalls :: "(call \<Rightarrow> bool) \<Rightarrow> event list \<Rightarrow> nat" where
  "countCalls kind h = length (filter (\<lambda>ev. kind (fst ev)) h)"

definition scriptedClient ::
  "(aws_error + CreateWebACLOutput) list \<Rightarrow> (aws_error + GetWebACLOutput option) list
     \<Rightarrow> (aws_error + unit) list \<Rightarrow> (aws_error + unit) list \<Rightarrow> nat \<Rightarrow> Client" where
  "scriptedClient creates gets updates deletes n =
     \<lparr>CreateWebACL_response = (\<lambda>h i. nthOr (Inl unscripted) creates
                                        (countCalls (\<lambda>c. \<not> isGetCall c \<and> \<not> isUpdateCall c \<and> \<not> isDeleteCall c) h)),
      GetWebACL_response = (\<lambda>h i. nthOr (Inl unscripted) gets (countCalls isGetCall h)),
      UpdateWebACL_response = (\<lambda>h i. nthOr (Inl unscripted) updates (countCalls isUpdateCall h)),
      DeleteWebACL_response = (\<lambda>h i. nthOr (Inl unscripted) deletes (countCalls isDeleteCall h)),
      attempts = (\<lambda>h. n)\<rparr>"

definition exampleData :: ResourceData where
  "exampleData =
     \<lparr>d_Id = ''abc'', d_IsNewResource = False, d_HasChangesExceptTags = True,
      d_name = ''acl'', d_scope = ''REGIONAL'', d_lock_token = ''t1'', d_rule = [],
      d_arn = [], d_capacity = 0, d_application_integration_url = [], d_settings = []\<rparr>"

definition exampleWebACL :: "Rule list \<Rightarrow> WebACL" where
  "exampleWebACL rules =
     \<lparr>WebACL_ARN = Some ''arn'', WebACL_Name = Some ''acl'', WebACL_Capacity = 1,
      WebACL_Rules = rules, WebACL_Settings = []\<rparr>"

definition exampleOutput :: "string \<Rightarrow> Rule list \<Rightarrow> GetWebACLOutput" where
  "exampleOutput token rules =
     \<lparr>Out_WebACL = Some (exampleWebACL rules), Out_LockToken = Some token,
      Out_ApplicationIntegrationURL = None\<rparr>"

definition exampleShieldRule :: "string \<Rightarrow> Rule" where
  "exampleShieldRule suffix =
     \<lparr>Rule_Name = Some (''ShieldMitigationRuleGroup_123456789012_0123abcd-0123-4567-89ab-0123456789ab_'' @ suffix),
      Rule_Priority = 1, Rule_Body = []\<rparr>"

definition examplePlainRule :: Rule where
  "examplePlainRule = \<lparr>Rule_Name = Some ''rate-limit'', Rule_Priority = 2, Rule_Body = []\<rparr>"

definition exampleTransferConn ::
  "(aws_error + string option) \<Rightarrow> (error + DescribedCertificate) \<Rightarrow> (aws_error + unit)
     \<Rightarrow> (aws_error + unit) \<Rightarrow> TransferConn" where
  "exampleTransferConn imported found updated deleted =
     \<lparr>ImportCertificate_response = (\<lambda>i. imported),
      FindCertificateByID_result = (\<lambda>i. found),
      UpdateCertificate_response = (\<lambda>i desc. updated),
      DeleteCertificate_response = (\<lambda>i. deleted)\<rparr>"

definition exampleCertificateData :: CertificateData where
  "exampleCertificateData =
     \<lparr>cd_Id = ''cert-1'', cd_IsNewResource = False, cd_HasChange_description = True,
      cd_description = ''old'', cd_attributes = []\<rparr>"

definition exampleDeviceFarmConn ::
  "(aws_error + Upload option) \<Rightarrow> (error + Upload) \<Rightarrow> (aws_error + unit)
     \<Rightarrow> (aws_error + unit) \<Rightarrow> DeviceFarmConn" where
  "exampleDeviceFarmConn created found updated deleted =
     \<lparr>CreateUpload_response = (\<lambda>i. created),
      FindUploadByARN_result = (\<lambda>i. found),
      UpdateUpload_response = (\<lambda>i. updated),
      DeleteUpload_response = (\<lambda>i. deleted),
      decodeProjectARN = (\<lambda>arn. Inr ''project-arn'')\<rparr>"

definition exampleUploadData :: UploadData where
  "exampleUploadData =
     \<lparr>ud_Id = ''upload-arn'', ud_IsNewResource = False, ud_HasChange_name = True,
      ud_HasChange_content_type = False, ud_name = ''app'', ud_type = ''ANDROID_APP'',
      ud_content_type = [], ud_project_arn = ''project-arn'', ud_arn = ''upload-arn'',
      ud_attributes = []\<rparr>"

section \<open>Properties of the importer\<close>

lemma Split_not_Nil: "Split s sep \<noteq> []"
  by (induction s) (auto split: list.splits)

lemma Split_no_sep: "sep \<notin> set s \<Longrightarrow> Split s sep = [s]"
  by (induction s) auto

lemma Split_append: "sep \<notin> set p \<Longrightarrow> Split (p @ sep # s) sep = p # Split s sep"
  by (induction p) (auto split: list.splits)

lemma Split_Cons_cases:
  "Split s sep = p # ps \<Longrightarrow>
     sep \<notin> set p \<and> (if ps = [] then s = p else \<exists>s'. s = p @ sep # s' \<and> Split s' sep = ps)"
proof (induction s arbitrary: p ps)
  case Nil
  then show ?case by simp
next
  case (Cons c cs)
  show ?case
  proof (cases "c = sep")
    case True
    with Cons.prems have "p = []" and "Split cs sep = ps" by simp_all
    with True show ?thesis using Split_not_Nil [of cs sep] by auto
  next
    case False
    obtain q qs where q: "Split cs sep = q # qs"
      using Split_not_Nil [of cs sep] by (cases "Split cs sep") auto
    with False Cons.prems have p: "p = c # q" and ps: "ps = qs" by simp_all
    from Cons.IH [OF q] have "sep \<notin> set q"
      and rest: "if qs = [] then cs = q else \<exists>s'. cs = q @ sep # s' \<and> Split s' sep = qs"
      by simp_all
    with False p ps show ?thesis by (auto split: if_splits)
  qed
qed

lemma Split_three:
  "Split s sep = [a, b, c] \<longleftrightarrow>
     s = a @ sep # b @ sep # c \<and> sep \<notin> set a \<and> sep \<notin> set b \<and> sep \<notin> set c"
proof
  assume h: "Split s sep = [a, b, c]"
  from Split_Cons_cases [OF h] obtain s1 where
    a: "sep \<notin> set a" and s: "s = a @ sep # s1" and s1: "Split s1 sep = [b, c]"
    by auto
  from Split_Cons_cases [OF s1] obtain s2 where
    b: "sep \<notin> set b" and s1': "s1 = b @ sep # s2" and s2: "Split s2 sep = [c]"
    by auto
  from Split_Cons_cases [OF s2] have "sep \<notin> set c" and "s2 = c" by simp_all
  with a b s s1' show "s = a @ sep # b @ sep # c \<and> sep \<notin> set a \<and> sep \<notin> set b \<and> sep \<notin> set c"
    by simp
next
  assume "s = a @ sep # b @ sep # c \<and> sep \<notin> set a \<and> sep \<notin> set b \<and> sep \<notin> set c"
  then show "Split s sep = [a, b, c]"
    by (simp add: Split_append Split_no_sep)
qed

lemma length_three: "length xs = 3 \<longleftrightarrow> (\<exists>a b c. xs = [a, b, c])"
  by (cases xs; cases "tl xs"; cases "tl (tl xs)"; cases "tl (tl (tl xs))") auto

text \<open>
  Claim C10. The importer succeeds exactly on the IDs of the form \<open>id/name/scope\<close> with
  three non-empty parts free of \<open>/\<close>; it then returns the one resource whose ID, name and
  scope are those parts. On every other ID it returns the unexpected-format error and no
  resource.
\<close>

theorem importer_three_parts:
  "(\<forall>a b c. d_Id d = a @ CHR ''/'' # b @ CHR ''/'' # c
        \<and> a \<noteq> [] \<and> b \<noteq> [] \<and> c \<noteq> []
        \<and> CHR ''/'' \<notin> set a \<and> CHR ''/'' \<notin> set b \<and> CHR ''/'' \<notin> set c
      \<longrightarrow> importerStateContext d = Inr [d\<lparr>d_Id := a, d_name := b, d_scope := c\<rparr>])
   \<and> ((\<nexists>a b c. d_Id d = a @ CHR ''/'' # b @ CHR ''/'' # c
        \<and> a \<noteq> [] \<and> b \<noteq> [] \<and> c \<noteq> []
        \<and> CHR ''/'' \<notin> set a \<and> CHR ''/'' \<notin> set b \<and> CHR ''/'' \<notin> set c)
      \<longrightarrow> importerStateContext d = Inl (UnexpectedFormatOfID (d_Id d)))"
proof (intro conjI allI impI)
  fix a b c
  assume "d_Id d = a @ CHR ''/'' # b @ CHR ''/'' # c
        \<and> a \<noteq> [] \<and> b \<noteq> [] \<and> c \<noteq> []
        \<and> CHR ''/'' \<notin> set a \<and> CHR ''/'' \<notin> set b \<and> CHR ''/'' \<notin> set c"
  then have "Split (d_Id d) CHR ''/'' = [a, b, c]" and "a \<noteq> []" and "b \<noteq> []" and "c \<noteq> []"
    by (simp_all add: Split_three)
  then show "importerStateContext d = Inr [d\<lparr>d_Id := a, d_name := b, d_scope := c\<rparr>]"
    by (simp add: importerStateContext_def)
next
  assume none: "\<nexists>a b c. d_Id d = a @ CHR ''/'' # b @ CHR ''/'' # c
        \<and> a \<noteq> [] \<and> b \<noteq> [] \<and> c \<noteq> []
        \<and> CHR ''/'' \<notin> set a \<and> CHR ''/'' \<notin> set b \<and> CHR ''/'' \<notin> set c"
  show "importerStateContext d = Inl (UnexpectedFormatOfID (d_Id d))"
  proof (cases "length (Split (d_Id d) CHR ''/'') = 3")
    case False
    then show ?thesis by (simp add: importerStateContext_def)
  next
    case True
    then obtain a b c where abc: "Split (d_Id d) CHR ''/'' = [a, b, c]"
      by (auto simp: length_three)
    then have "d_Id d = a @ CHR ''/'' # b @ CHR ''/'' # c
        \<and> CHR ''/'' \<notin> set a \<and> CHR ''/'' \<notin> set b \<and> CHR ''/'' \<notin> set c"
      by (simp add: Split_three)
    with none have "a = [] \<or> b = [] \<or> c = []" by blast
    with abc show ?thesis by (auto simp: importerStateContext_def)
  qed
qed

theorem importer_three_parts_witness:
  "importerStateContext
     \<lparr>d_Id = ''abc/acl/REGIONAL'', d_IsNewResource = False, d_HasChangesExceptTags = False,
      d_name = [], d_scope = [], d_lock_token = [], d_rule = [], d_arn = [],
      d_capacity = 0, d_application_integration_url = [], d_settings = []\<rparr>
   = Inr [\<lparr>d_Id = ''abc'', d_IsNewResource = False, d_HasChangesExceptTags = False,
      d_name = ''acl'', d_scope = ''REGIONAL'', d_lock_token = [], d_rule = [], d_arn = [],
      d_capacity = 0, d_application_integration_url = [], d_settings = []\<rparr>]
   \<and> importerStateContext
     \<lparr>d_Id = ''abc/acl'', d_IsNewResource = False, d_HasChangesExceptTags = False,
      d_name = [], d_scope = [], d_lock_token = [], d_rule = [], d_arn = [],
      d_capacity = 0, d_application_integration_url = [], d_settings = []\<rparr>
   = Inl (UnexpectedFormatOfID ''abc/acl'')"
proof -
  let ?d = "\<lparr>d_Id = ''abc/acl/REGIONAL'', d_IsNewResource = False, d_HasChangesExceptTags = False,
      d_name = [], d_scope = [], d_lock_token = [], d_rule = [], d_arn = [],
      d_capacity = 0, d_application_integration_url = [], d_settings = []\<rparr>"
  let ?e = "\<lparr>d_Id = ''abc/acl'', d_IsNewResource = False, d_HasChangesExceptTags = False,
      d_name = [], d_scope = [], d_lock_token = [], d_rule = [], d_arn = [],
      d_capacity = 0, d_application_integration_url = [], d_settings = []\<rparr>"
  have ok: "importerStateContext ?d = Inr [?d\<lparr>d_Id := ''abc'', d_name := ''acl'', d_scope := ''REGIONAL''\<rparr>]"
    using importer_three_parts [of ?d, THEN conjunct1, rule_format, of "''abc''" "''acl''" "''REGIONAL''"]
    by simp
  have no: "\<nexists>a b c. d_Id ?e = a @ CHR ''/'' # b @ CHR ''/'' # c
        \<and> a \<noteq> [] \<and> b \<noteq> [] \<and> c \<noteq> []
        \<and> CHR ''/'' \<notin> set a \<and> CHR ''/'' \<notin> set b \<and> CHR ''/'' \<notin> set c"
  proof
    assume "\<exists>a b c. d_Id ?e = a @ CHR ''/'' # b @ CHR ''/'' # c
        \<and> a \<noteq> [] \<and> b \<noteq> [] \<and> c \<noteq> []
        \<and> CHR ''/'' \<notin> set a \<and> CHR ''/'' \<notin> set b \<and> CHR ''/'' \<notin> set c"
    then obtain a b c where "''abc/acl'' = a @ CHR ''/'' # b @ CHR ''/'' # c
        \<and> CHR ''/'' \<notin> set a \<and> CHR ''/'' \<notin> set b \<and> CHR ''/'' \<notin> set c"
      by auto
    then have "Split ''abc/acl'' CHR ''/'' = [a, b, c]"
      by (rule Split_three [THEN iffD2])
    then show False by simp
  qed
  have bad: "importerStateContext ?e = Inl (UnexpectedFormatOfID ''abc/acl'')"
    using importer_three_parts [of ?e, THEN conjunct2] no by simp
  from ok bad show ?thesis by simp
qed

section \<open>The finders\<close>

lemma findVPCsV2_loop_pages:
  "findVPCsV2_loop code out (map Inr ps @ rest) = findVPCsV2_loop code (out @ concat (map Vpcs ps)) rest"
  by (induction ps arbitrary: out) simp_all

text \<open>
  Claim C7. When every page request succeeds, \<open>findVPCsV2\<close> returns the VPC lists of the
  pages concatenated in page order. When a page request fails after some successful ones,
  the result is a not-found error if the error code is \<open>errCodeInvalidVPCIDNotFound\<close>, and
  the page error itself otherwise.
\<close>

theorem findVPCsV2_concatenates_pages:
  "(\<forall>ps. pages = map Inr ps \<longrightarrow> findVPCsV2 code pages = Inr (concat (map Vpcs ps)))
   \<and> (\<forall>ps err rest. pages = map Inr ps @ Inl err # rest \<longrightarrow>
        findVPCsV2 code pages =
          (if ErrCodeEquals err code then Inl (NotFoundError err) else Inl (ApiError err)))"
proof (intro conjI allI impI)
  fix ps assume "pages = map Inr ps"
  then show "findVPCsV2 code pages = Inr (concat (map Vpcs ps))"
    using findVPCsV2_loop_pages [of code "[]" ps "[]"] by (simp add: findVPCsV2_def)
next
  fix ps err rest assume "pages = map Inr ps @ Inl err # rest"
  then show "findVPCsV2 code pages =
          (if ErrCodeEquals err code then Inl (NotFoundError err) else Inl (ApiError err))"
    by (simp add: findVPCsV2_def findVPCsV2_loop_pages)
qed

theorem findVPCsV2_concatenates_pages_witness:
  "findVPCsV2 ''InvalidVpcID.NotFound''
     [Inr \<lparr>Vpcs = [\<lparr>Vpc_VpcId = Some ''vpc-1'', Vpc_CidrBlock = None\<rparr>,
                    \<lparr>Vpc_VpcId = Some ''vpc-2'', Vpc_CidrBlock = None\<rparr>]\<rparr>,
      Inr \<lparr>Vpcs = [\<lparr>Vpc_VpcId = Some ''vpc-3'', Vpc_CidrBlock = None\<rparr>]\<rparr>]
   = Inr [\<lparr>Vpc_VpcId = Some ''vpc-1'', Vpc_CidrBlock = None\<rparr>,
          \<lparr>Vpc_VpcId = Some ''vpc-2'', Vpc_CidrBlock = None\<rparr>,
          \<lparr>Vpc_VpcId = Some ''vpc-3'', Vpc_CidrBlock = None\<rparr>]
   \<and> findVPCsV2 ''InvalidVpcID.NotFound''
     [Inr \<lparr>Vpcs = [\<lparr>Vpc_VpcId = Some ''vpc-1'', Vpc_CidrBlock = None\<rparr>]\<rparr>,
      Inl (AwsError ''InvalidVpcID.NotFound'' ''The vpc ID does not exist''),
      Inr \<lparr>Vpcs = []\<rparr>]
   = Inl (NotFoundError (AwsError ''InvalidVpcID.NotFound'' ''The vpc ID does not exist''))
   \<and> findVPCsV2 ''InvalidVpcID.NotFound''
     [Inl (AwsError ''UnauthorizedOperation'' ''denied'')]
   = Inl (ApiError (AwsError ''UnauthorizedOperation'' ''denied''))"
proof -
  let ?v1 = "\<lparr>Vpc_VpcId = Some ''vpc-1'', Vpc_CidrBlock = None\<rparr>"
  let ?v2 = "\<lparr>Vpc_VpcId = Some ''vpc-2'', Vpc_CidrBlock = None\<rparr>"
  let ?v3 = "\<lparr>Vpc_VpcId = Some ''vpc-3'', Vpc_CidrBlock = None\<rparr>"
  let ?nf = "AwsError ''InvalidVpcID.NotFound'' ''The vpc ID does not exist''"
  let ?un = "AwsError ''UnauthorizedOperation'' ''denied''"
  note a = findVPCsV2_concatenates_pages [THEN conjunct1, rule_format,
      of "[Inr \<lparr>Vpcs = [?v1, ?v2]\<rparr>, Inr \<lparr>Vpcs = [?v3]\<rparr>]" "[\<lparr>Vpcs = [?v1, ?v2]\<rparr>, \<lparr>Vpcs = [?v3]\<rparr>]"
         "''InvalidVpcID.NotFound''"]
  note b = findVPCsV2_concatenates_pages [THEN conjunct2, rule_format,
      of "[Inr \<lparr>Vpcs = [?v1]\<rparr>, Inl ?nf, Inr \<lparr>Vpcs = []\<rparr>]" "[\<lparr>Vpcs = [?v1]\<rparr>]" ?nf "[Inr \<lparr>Vpcs = []\<rparr>]"
         "''InvalidVpcID.NotFound''"]
  note c = findVPCsV2_concatenates_pages [THEN conjunct2, rule_format,
      of "[Inl ?un]" "[]" ?un "[]" "''InvalidVpcID.NotFound''"]
  from a b c show ?thesis by (simp add: ErrCodeEquals_def)
qed

text \<open>
  Claim C6. \<open>findWebACLByThreePartKey\<close> returns a not-found error exactly when
  \<open>GetWebACL\<close> fails with \<open>WAFNonexistentItemException\<close> or answers with a nil output or
  a nil web ACL; any other API error is returned as it is; otherwise the output of
  \<open>GetWebACL\<close>, whose web ACL is not nil, is returned.
\<close>

theorem findWebACLByThreePartKey_not_found:
  "let rsp = GetWebACL_response conn h \<lparr>GetIn_Id = id', GetIn_Name = name, GetIn_Scope = scope\<rparr>;
       res = fst (findWebACLByThreePartKey conn id' name scope h)
   in ((\<exists>e. res = Inl e \<and> NotFound e) \<longleftrightarrow>
         ((\<exists>err. rsp = Inl err \<and> ErrCodeEquals err WAFNonexistentItemException)
          \<or> rsp = Inr None \<or> (\<exists>out. rsp = Inr (Some out) \<and> Out_WebACL out = None)))
      \<and> (\<forall>err. rsp = Inl err \<and> \<not> ErrCodeEquals err WAFNonexistentItemException
            \<longrightarrow> res = Inl (ApiError err))
      \<and> (\<forall>out. rsp = Inr (Some out) \<and> Out_WebACL out \<noteq> None \<longrightarrow> res = Inr out)"
  by (auto simp: findWebACLByThreePartKey_def GetWebACL_def Let_def split: sum.splits option.splits)

theorem findWebACLByThreePartKey_not_found_witness:
  "(\<exists>e. fst (findWebACLByThreePartKey
             (scriptedClient [] [Inl (AwsError ''WAFNonexistentItemException'' ''gone'')] [] [] 0)
             ''abc'' ''acl'' ''REGIONAL'' []) = Inl e \<and> NotFound e)
   \<and> (\<exists>e. fst (findWebACLByThreePartKey (scriptedClient [] [Inr None] [] [] 0)
             ''abc'' ''acl'' ''REGIONAL'' []) = Inl e \<and> NotFound e)
   \<and> fst (findWebACLByThreePartKey
             (scriptedClient [] [Inl (AwsError ''WAFInternalErrorException'' ''oops'')] [] [] 0)
             ''abc'' ''acl'' ''REGIONAL'' [])
       = Inl (ApiError (AwsError ''WAFInternalErrorException'' ''oops''))
   \<and> fst (findWebACLByThreePartKey (scriptedClient [] [Inr (Some (exampleOutput ''t2'' []))] [] [] 0)
             ''abc'' ''acl'' ''REGIONAL'' [])
       = Inr (exampleOutput ''t2'' [])"
proof -
  let ?nf = "AwsError ''WAFNonexistentItemException'' ''gone''"
  let ?ie = "AwsError ''WAFInternalErrorException'' ''oops''"
  note a = findWebACLByThreePartKey_not_found
      [of "scriptedClient [] [Inl ?nf] [] [] 0" "[]" "''abc''" "''acl''" "''REGIONAL''"]
  note b = findWebACLByThreePartKey_not_found
      [of "scriptedClient [] [Inr None] [] [] 0" "[]" "''abc''" "''acl''" "''REGIONAL''"]
  note c = findWebACLByThreePartKey_not_found
      [of "scriptedClient [] [Inl ?ie] [] [] 0" "[]" "''abc''" "''acl''" "''REGIONAL''"]
  note d = findWebACLByThreePartKey_not_found
      [of "scriptedClient [] [Inr (Some (exampleOutput ''t2'' []))] [] [] 0" "[]" "''abc''" "''acl''" "''REGIONAL''"]
  have a': "\<exists>e. fst (findWebACLByThreePartKey (scriptedClient [] [Inl ?nf] [] [] 0)
             ''abc'' ''acl'' ''REGIONAL'' []) = Inl e \<and> NotFound e"
    using a by (simp add: Let_def scriptedClient_def nthOr_def countCalls_def ErrCodeEquals_def
        WAFNonexistentItemException_def)
  have b': "\<exists>e. fst (findWebACLByThreePartKey (scriptedClient [] [Inr None] [] [] 0)
             ''abc'' ''acl'' ''REGIONAL'' []) = Inl e \<and> NotFound e"
    using b by (simp add: Let_def scriptedClient_def nthOr_def countCalls_def)
  have c': "fst (findWebACLByThreePartKey (scriptedClient [] [Inl ?ie] [] [] 0)
             ''abc'' ''acl'' ''REGIONAL'' []) = Inl (ApiError ?ie)"
    using c by (simp add: Let_def scriptedClient_def nthOr_def countCalls_def ErrCodeEquals_def
        WAFNonexistentItemException_def)
  have d': "fst (findWebACLByThreePartKey (scriptedClient [] [Inr (Some (exampleOutput ''t2'' []))] [] [] 0)
             ''abc'' ''acl'' ''REGIONAL'' []) = Inr (exampleOutput ''t2'' [])"
    using d by (simp add: Let_def scriptedClient_def nthOr_def countCalls_def exampleOutput_def)
  from a' b' c' d' show ?thesis by blast
qed


section \<open>Not-found on read\<close>

text \<open>
  Claim C5. When the finder of a read reports not-found and the resource is not newly
  created, the read clears the stored ID and returns no diagnostics; for a newly created
  resource the read returns an error diagnostic and leaves the resource data as it was.
  This holds for the WAFv2 web ACL, the Transfer certificate and the DeviceFarm upload.
\<close>

theorem read_not_found:
  "(\<forall>err h'. findWebACLByThreePartKey conn (d_Id d) (d_name d) (d_scope d) h = (Inl err, h')
        \<and> NotFound err \<longrightarrow>
      resourceWebACLRead conn d h =
        (if d_IsNewResource d
         then (Return ([ErrorDiag (''reading WAFv2 WebACL ('' @ d_Id d @ ''): '' @ ErrorText err)], d), h')
         else (Return ([], d\<lparr>d_Id := []\<rparr>), h')))
   \<and> (\<forall>err. FindCertificateByID_result tconn (cd_Id cd) = Inl err \<and> NotFound err \<longrightarrow>
      resourceCertificateRead tconn cd =
        (if cd_IsNewResource cd
         then ([ErrorDiag (''reading Transfer Certificate ('' @ cd_Id cd @ ''): '' @ ErrorText err)], cd)
         else ([], cd\<lparr>cd_Id := []\<rparr>)))
   \<and> (\<forall>err. FindUploadByARN_result dconn (ud_Id ud) = Inl err \<and> NotFound err \<longrightarrow>
      resourceUploadRead dconn ud =
        (if ud_IsNewResource ud
         then ([ErrorDiag (''reading DeviceFarm Upload ('' @ ud_Id ud @ ''): '' @ ErrorText err)], ud)
         else ([], ud\<lparr>ud_Id := []\<rparr>)))"
  by (simp add: resourceWebACLRead_def resourceCertificateRead_def resourceUploadRead_def
      Errorf_def AppendErrorf_def)

lemma find_example_gone:
  "findWebACLByThreePartKey
     (scriptedClient [] [Inl (AwsError ''WAFNonexistentItemException'' ''gone'')] [] [] 0)
     ''abc'' ''acl'' ''REGIONAL'' []
   = (Inl (NotFoundError (AwsError ''WAFNonexistentItemException'' ''gone'')),
      [(CallGetWebACL \<lparr>GetIn_Id = ''abc'', GetIn_Name = ''acl'', GetIn_Scope = ''REGIONAL''\<rparr>,
        Some (AwsError ''WAFNonexistentItemException'' ''gone''))])"
  by (simp add: findWebACLByThreePartKey_def GetWebACL_def scriptedClient_def nthOr_def
      countCalls_def ErrCodeEquals_def WAFNonexistentItemException_def)

theorem read_not_found_witness:
  "resourceWebACLRead
     (scriptedClient [] [Inl (AwsError ''WAFNonexistentItemException'' ''gone'')] [] [] 0)
     exampleData []
   = (Return ([], exampleData\<lparr>d_Id := []\<rparr>),
      [(CallGetWebACL \<lparr>GetIn_Id = ''abc'', GetIn_Name = ''acl'', GetIn_Scope = ''REGIONAL''\<rparr>,
        Some (AwsError ''WAFNonexistentItemException'' ''gone''))])
   \<and> resourceWebACLRead
     (scriptedClient [] [Inl (AwsError ''WAFNonexistentItemException'' ''gone'')] [] [] 0)
     (exampleData\<lparr>d_IsNewResource := True\<rparr>) []
   = (Return ([ErrorDiag ''reading WAFv2 WebACL (abc): couldn't find resource''],
              exampleData\<lparr>d_IsNewResource := True\<rparr>),
      [(CallGetWebACL \<lparr>GetIn_Id = ''abc'', GetIn_Name = ''acl'', GetIn_Scope = ''REGIONAL''\<rparr>,
        Some (AwsError ''WAFNonexistentItemException'' ''gone''))])
   \<and> resourceCertificateRead
     (exampleTransferConn (Inr None) (Inl EmptyResultError) (Inr ()) (Inr ())) exampleCertificateData
   = ([], exampleCertificateData\<lparr>cd_Id := []\<rparr>)
   \<and> resourceUploadRead
     (exampleDeviceFarmConn (Inr None) (Inl EmptyResultError) (Inr ()) (Inr ())) exampleUploadData
   = ([], exampleUploadData\<lparr>ud_Id := []\<rparr>)"
proof -
  let ?gone = "AwsError ''WAFNonexistentItemException'' ''gone''"
  let ?conn = "scriptedClient [] [Inl ?gone] [] [] 0"
  let ?ev = "(CallGetWebACL \<lparr>GetIn_Id = ''abc'', GetIn_Name = ''acl'', GetIn_Scope = ''REGIONAL''\<rparr>, Some ?gone)"
  let ?tconn = "exampleTransferConn (Inr None) (Inl EmptyResultError) (Inr ()) (Inr ())"
  let ?dconn = "exampleDeviceFarmConn (Inr None) (Inl EmptyResultError) (Inr ()) (Inr ())"
  note old = read_not_found [of ?conn exampleData "[]" ?tconn exampleCertificateData ?dconn exampleUploadData]
  note new = read_not_found [of ?conn "exampleData\<lparr>d_IsNewResource := True\<rparr>" "[]" ?tconn exampleCertificateData ?dconn exampleUploadData]
  have f1: "findWebACLByThreePartKey ?conn (d_Id exampleData) (d_name exampleData) (d_scope exampleData) []
      = (Inl (NotFoundError ?gone), [?ev])"
    using find_example_gone by (simp add: exampleData_def)
  have a: "resourceWebACLRead ?conn exampleData [] = (Return ([], exampleData\<lparr>d_Id := []\<rparr>), [?ev])"
    using old [THEN conjunct1, rule_format, of "NotFoundError ?gone" "[?ev]"] f1
    by (simp add: exampleData_def)
  have b: "resourceWebACLRead ?conn (exampleData\<lparr>d_IsNewResource := True\<rparr>) []
     = (Return ([ErrorDiag ''reading WAFv2 WebACL (abc): couldn't find resource''],
              exampleData\<lparr>d_IsNewResource := True\<rparr>), [?ev])"
    using new [THEN conjunct1, rule_format, of "NotFoundError ?gone" "[?ev]"] f1
    by (simp add: exampleData_def)
  have c: "resourceCertificateRead ?tconn exampleCertificateData = ([], exampleCertificateData\<lparr>cd_Id := []\<rparr>)"
    using old [THEN conjunct2, THEN conjunct1, rule_format, of EmptyResultError]
    by (simp add: exampleTransferConn_def exampleCertificateData_def)
  have d: "resourceUploadRead ?dconn exampleUploadData = ([], exampleUploadData\<lparr>ud_Id := []\<rparr>)"
    using old [THEN conjunct2, THEN conjunct2, rule_format, of EmptyResultError]
    by (simp add: exampleDeviceFarmConn_def exampleUploadData_def)
  from a b c d show ?thesis by simp
qed


section \<open>The requests of the retry helper\<close>

lemma conflictRetries_append:
  "conflictRetries m b (xs @ ys) = conflictRetries m b xs + conflictRetries m (pendingAfter m b xs) ys"
  by (induction xs arbitrary: b) auto

lemma pendingAfter_append:
  "pendingAfter m b (xs @ ys) = pendingAfter m (pendingAfter m b xs) ys"
  by (induction xs arbitrary: b) auto

lemma transient_not_conflict: "isTransient ev \<Longrightarrow> \<not> isConflict ev"
  by (auto simp: isTransient_def isConflict_def ErrCodeEquals_def WAFOptimisticLockException_def
      WAFAssociatedItemException_def WAFUnavailableEntityException_def split: option.splits)

lemma transient_not_nonexistent: "isTransient ev \<Longrightarrow> \<not> isNonexistent ev"
  by (auto simp: isTransient_def isNonexistent_def ErrCodeEquals_def WAFNonexistentItemException_def
      WAFAssociatedItemException_def WAFUnavailableEntityException_def split: option.splits)

lemma RetryWhen_trace:
  assumes f: "\<And>s. \<exists>r. f s = (r, s @ [(c, err_of r)])"
  shows "RetryWhen n P f h = (r, h') \<Longrightarrow>
    \<exists>pre. h' = h @ pre @ [(c, err_of r)] \<and> length pre \<le> n
          \<and> (\<forall>ev \<in> set pre. \<exists>e. ev = (c, Some e) \<and> P e)"
proof (induction n arbitrary: h)
  case 0
  with f [of h] show ?case by auto
next
  case (Suc n)
  from f [of h] obtain r1 where r1: "f h = (r1, h @ [(c, err_of r1)])" by blast
  show ?case
  proof (cases "\<exists>e. r1 = Inl e \<and> P e")
    case True
    then obtain e where e: "r1 = Inl e" "P e" by blast
    with r1 Suc.prems have "RetryWhen n P f (h @ [(c, Some e)]) = (r, h')" by simp
    from Suc.IH [OF this] obtain pre where
      "h' = (h @ [(c, Some e)]) @ pre @ [(c, err_of r)]" "length pre \<le> n"
      "\<forall>ev \<in> set pre. \<exists>e. ev = (c, Some e) \<and> P e" by blast
    with e show ?thesis
      by (intro exI [of _ "(c, Some e) # pre"]) auto
  next
    case False
    with r1 Suc.prems have "r = r1" "h' = h @ [(c, err_of r1)]"
      by (auto split: sum.splits if_splits)
    then show ?thesis by (intro exI [of _ "[]"]) simp
  qed
qed

lemma RetryWhen_not_retryable:
  "f h = (Inl err, h1) \<Longrightarrow> \<not> P err \<Longrightarrow> RetryWhen n P f h = (Inl err, h1)"
  by (cases n) simp_all

lemma RetryWhen_success:
  "f h = (Inr v, h1) \<Longrightarrow> RetryWhen n P f h = (Inr v, h1)"
  by (cases n) simp_all

lemma RetryWhenIsA_trace:
  assumes f: "\<And>s. \<exists>r. f s = (r, s @ [(c, err_of r)])"
    and "RetryWhenIsA WAFUnavailableEntityException conn f h = (r, h')"
  shows "\<exists>pre. h' = h @ pre @ [(c, err_of r)] \<and> (\<forall>ev \<in> set pre. fst ev = c \<and> isTransient ev)"
proof -
  from RetryWhen_trace [OF f] assms(2) obtain pre where
    "h' = h @ pre @ [(c, err_of r)]"
    "\<forall>ev \<in> set pre. \<exists>e. ev = (c, Some e) \<and> ErrCodeEquals e WAFUnavailableEntityException"
    unfolding RetryWhenIsA_def by blast
  then show ?thesis by (intro exI [of _ pre]) (auto simp: isTransient_def)
qed

lemma RetryWhenIsOneOf2_trace:
  assumes f: "\<And>s. \<exists>r. f s = (r, s @ [(c, err_of r)])"
    and "RetryWhenIsOneOf2 WAFAssociatedItemException WAFUnavailableEntityException conn f h = (r, h')"
  shows "\<exists>pre. h' = h @ pre @ [(c, err_of r)] \<and> (\<forall>ev \<in> set pre. fst ev = c \<and> isTransient ev)"
proof -
  from RetryWhen_trace [OF f] assms(2) obtain pre where
    "h' = h @ pre @ [(c, err_of r)]"
    "\<forall>ev \<in> set pre. \<exists>e. ev = (c, Some e) \<and>
       (ErrCodeEquals e WAFAssociatedItemException \<or> ErrCodeEquals e WAFUnavailableEntityException)"
    unfolding RetryWhenIsOneOf2_def by blast
  then show ?thesis by (intro exI [of _ pre]) (auto simp: isTransient_def)
qed

lemma UpdateWebACL_step: "\<exists>r. UpdateWebACL conn i s = (r, s @ [(CallUpdateWebACL i, err_of r)])"
  by (simp add: UpdateWebACL_def Let_def)

lemma DeleteWebACL_step: "\<exists>r. DeleteWebACL conn i s = (r, s @ [(CallDeleteWebACL i, err_of r)])"
  by (simp add: DeleteWebACL_def Let_def)

lemma CreateWebACL_step: "\<exists>r. CreateWebACL conn i s = (r, s @ [(CallCreateWebACL i, err_of r)])"
  by (simp add: CreateWebACL_def Let_def)

lemma find_step:
  "findWebACLByThreePartKey conn i n sc h = (r, h') \<Longrightarrow>
     \<exists>g. h' = h @ [(CallGetWebACL \<lparr>GetIn_Id = i, GetIn_Name = n, GetIn_Scope = sc\<rparr>, g)]"
  by (auto simp: findWebACLByThreePartKey_def GetWebACL_def Let_def
      split: sum.splits option.splits if_splits)

lemma segment_conflictRetries:
  "\<forall>ev \<in> set pre. fst ev = c \<and> isTransient ev \<Longrightarrow>
     conflictRetries m b (pre @ [(c, x)]) = (if m c \<and> b then 1 else 0)"
  by (induction pre arbitrary: b) (auto dest: transient_not_conflict)

lemma segment_pendingAfter:
  "\<forall>ev \<in> set pre. fst ev = c \<and> isTransient ev \<Longrightarrow>
     pendingAfter m b (pre @ [(c, x)]) = (if m c then isConflict (c, x) else b)"
  by (induction pre arbitrary: b) (auto dest: transient_not_conflict)


section \<open>The requests of the delete callback\<close>

lemma retryDelete_cases:
  assumes run: "retryResourceWebACLDeleteOptmisticLockFailure conn i n sc tok h = (diags, h')"
  obtains (refresh_failed) err g where
      "findWebACLByThreePartKey conn i n sc h = (Inl err, h')"
      "h' = h @ [(CallGetWebACL \<lparr>GetIn_Id = i, GetIn_Name = n, GetIn_Scope = sc\<rparr>, g)]"
      "diags = Errorf (''refreshing WAFv2 WebACL ('' @ i @
                   ''), attempting to refresh WAFv2 WebACL to retrieve new LockToken: '' @ ErrorText err)"
  | (same_token) out g where
      "findWebACLByThreePartKey conn i n sc h = (Inr out, h')"
      "h' = h @ [(CallGetWebACL \<lparr>GetIn_Id = i, GetIn_Name = n, GetIn_Scope = sc\<rparr>, g)]"
      "ToString (Out_LockToken out) = tok" "diags = []"
  | (retried) out g pre and r :: "aws_error + unit" where
      "findWebACLByThreePartKey conn i n sc h =
         (Inr out, h @ [(CallGetWebACL \<lparr>GetIn_Id = i, GetIn_Name = n, GetIn_Scope = sc\<rparr>, g)])"
      "ToString (Out_LockToken out) \<noteq> tok"
      "h' = h @ [(CallGetWebACL \<lparr>GetIn_Id = i, GetIn_Name = n, GetIn_Scope = sc\<rparr>, g)] @ pre @
            [(CallDeleteWebACL \<lparr>DelIn_Id = i, DelIn_LockToken = Out_LockToken out,
                                DelIn_Name = n, DelIn_Scope = sc\<rparr>, err_of r)]"
      "\<forall>ev \<in> set pre. fst ev = CallDeleteWebACL \<lparr>DelIn_Id = i, DelIn_LockToken = Out_LockToken out,
                                DelIn_Name = n, DelIn_Scope = sc\<rparr> \<and> isTransient ev"
      "diags = (case r of
                  Inl err \<Rightarrow>
                    if ErrCodeEquals err WAFOptimisticLockException
                    then Errorf (''deleting WAFv2 WebACL ('' @ i @
                               ''), resource has changed since last refresh please run a new plan before applying again: ''
                               @ Text err)
                    else []
                | Inr v \<Rightarrow> [])"
proof -
  obtain fr h1 where fr: "findWebACLByThreePartKey conn i n sc h = (fr, h1)"
    by (cases "findWebACLByThreePartKey conn i n sc h")
  from find_step [OF fr] obtain g where
    h1: "h1 = h @ [(CallGetWebACL \<lparr>GetIn_Id = i, GetIn_Name = n, GetIn_Scope = sc\<rparr>, g)]" by blast
  show thesis
  proof (cases fr)
    case (Inl err)
    with run fr have "h' = h1" and "diags = Errorf (''refreshing WAFv2 WebACL ('' @ i @
                   ''), attempting to refresh WAFv2 WebACL to retrieve new LockToken: '' @ ErrorText err)"
      by (simp_all add: retryResourceWebACLDeleteOptmisticLockFailure_def)
    with fr Inl h1 show thesis by (intro refresh_failed [of err g]) simp_all
  next
    case (Inr out)
    show thesis
    proof (cases "ToString (Out_LockToken out) = tok")
      case True
      with run fr Inr have "h' = h1" and "diags = []"
        by (simp_all add: retryResourceWebACLDeleteOptmisticLockFailure_def)
      with fr Inr h1 True show thesis by (intro same_token [of out g]) simp_all
    next
      case False
      let ?in = "\<lparr>DelIn_Id = i, DelIn_LockToken = Out_LockToken out, DelIn_Name = n, DelIn_Scope = sc\<rparr>"
      obtain r h2 where w: "RetryWhenIsOneOf2 WAFAssociatedItemException WAFUnavailableEntityException conn
                       (DeleteWebACL conn ?in) h1 = (r, h2)"
        by (cases "RetryWhenIsOneOf2 WAFAssociatedItemException WAFUnavailableEntityException conn
                       (DeleteWebACL conn ?in) h1")
      from RetryWhenIsOneOf2_trace [OF DeleteWebACL_step w] obtain pre where
        pre: "h2 = h1 @ pre @ [(CallDeleteWebACL ?in, err_of r)]"
          "\<forall>ev \<in> set pre. fst ev = CallDeleteWebACL ?in \<and> isTransient ev" by blast
      from run fr Inr False w have "h' = h2" and
        "diags = (case r of
                  Inl err \<Rightarrow>
                    if ErrCodeEquals err WAFOptimisticLockException
                    then Errorf (''deleting WAFv2 WebACL ('' @ i @
                               ''), resource has changed since last refresh please run a new plan before applying again: ''
                               @ Text err)
                    else []
                | Inr v \<Rightarrow> [])"
        by (auto simp: retryResourceWebACLDeleteOptmisticLockFailure_def Let_def split: sum.splits if_splits)
      with fr Inr h1 False pre show thesis by (intro retried [of out g pre r]) simp_all
    qed
  qed
qed


lemma resourceWebACLDelete_cases:
  assumes run: "resourceWebACLDelete conn d h = (diags, h')"
  obtains (no_conflict) pre and r :: "aws_error + unit" where
      "RetryWhenIsOneOf2 WAFAssociatedItemException WAFUnavailableEntityException conn
         (DeleteWebACL conn \<lparr>DelIn_Id = d_Id d, DelIn_LockToken = Some (d_lock_token d),
                             DelIn_Name = d_name d, DelIn_Scope = d_scope d\<rparr>) h = (r, h')"
      "h' = h @ pre @ [(CallDeleteWebACL \<lparr>DelIn_Id = d_Id d, DelIn_LockToken = Some (d_lock_token d),
                             DelIn_Name = d_name d, DelIn_Scope = d_scope d\<rparr>, err_of r)]"
      "\<forall>ev \<in> set pre. fst ev = CallDeleteWebACL \<lparr>DelIn_Id = d_Id d,
             DelIn_LockToken = Some (d_lock_token d), DelIn_Name = d_name d, DelIn_Scope = d_scope d\<rparr>
           \<and> isTransient ev"
      "\<not> isConflict (CallDeleteWebACL \<lparr>DelIn_Id = d_Id d, DelIn_LockToken = Some (d_lock_token d),
                             DelIn_Name = d_name d, DelIn_Scope = d_scope d\<rparr>, err_of r)"
      "diags = (case r of
                  Inl err \<Rightarrow>
                    if ErrCodeEquals err WAFNonexistentItemException then []
                    else Errorf (''deleting WAFv2 WebACL ('' @ d_Id d @ ''): '' @ Text err)
                | Inr v \<Rightarrow> [])"
  | (conflict) pre err h1 where
      "RetryWhenIsOneOf2 WAFAssociatedItemException WAFUnavailableEntityException conn
         (DeleteWebACL conn \<lparr>DelIn_Id = d_Id d, DelIn_LockToken = Some (d_lock_token d),
                             DelIn_Name = d_name d, DelIn_Scope = d_scope d\<rparr>) h = (Inl err, h1)"
      "h1 = h @ pre @ [(CallDeleteWebACL \<lparr>DelIn_Id = d_Id d, DelIn_LockToken = Some (d_lock_token d),
                             DelIn_Name = d_name d, DelIn_Scope = d_scope d\<rparr>, Some err)]"
      "\<forall>ev \<in> set pre. fst ev = CallDeleteWebACL \<lparr>DelIn_Id = d_Id d,
             DelIn_LockToken = Some (d_lock_token d), DelIn_Name = d_name d, DelIn_Scope = d_scope d\<rparr>
           \<and> isTransient ev"
      "ErrCodeEquals err WAFOptimisticLockException"
      "retryResourceWebACLDeleteOptmisticLockFailure conn (d_Id d) (d_name d) (d_scope d)
         (d_lock_token d) h1 = (diags, h')"
proof -
  let ?in = "\<lparr>DelIn_Id = d_Id d, DelIn_LockToken = Some (d_lock_token d),
              DelIn_Name = d_name d, DelIn_Scope = d_scope d\<rparr>"
  obtain r :: "aws_error + unit" and h1 where
    w: "RetryWhenIsOneOf2 WAFAssociatedItemException WAFUnavailableEntityException conn
          (DeleteWebACL conn ?in) h = (r, h1)"
    by (cases "RetryWhenIsOneOf2 WAFAssociatedItemException WAFUnavailableEntityException conn
          (DeleteWebACL conn ?in) h")
  from RetryWhenIsOneOf2_trace [OF DeleteWebACL_step w] obtain pre where
    pre: "h1 = h @ pre @ [(CallDeleteWebACL ?in, err_of r)]"
      "\<forall>ev \<in> set pre. fst ev = CallDeleteWebACL ?in \<and> isTransient ev" by blast
  show thesis
  proof (cases "isConflict (CallDeleteWebACL ?in, err_of r)")
    case True
    then obtain err where err: "r = Inl err" "ErrCodeEquals err WAFOptimisticLockException"
      by (cases r) (auto simp: isConflict_def)
    with run w have "retryResourceWebACLDeleteOptmisticLockFailure conn (d_Id d) (d_name d) (d_scope d)
         (d_lock_token d) h1 = (diags, h')"
      by (simp add: resourceWebACLDelete_def Let_def)
    with w pre err show thesis by (intro conflict [of err h1 pre]) simp_all
  next
    case False
    with run w have "h' = h1" and
      "diags = (case r of
                  Inl err \<Rightarrow>
                    if ErrCodeEquals err WAFNonexistentItemException then []
                    else Errorf (''deleting WAFv2 WebACL ('' @ d_Id d @ ''): '' @ Text err)
                | Inr v \<Rightarrow> [])"
      by (auto simp: resourceWebACLDelete_def Let_def isConflict_def split: sum.splits if_splits)
    with w pre False show thesis by (intro no_conflict [of r pre]) simp_all
  qed
qed

lemma segment_conflicts:
  "\<forall>ev \<in> set pre. fst ev = c \<and> isTransient ev \<Longrightarrow>
     filter (\<lambda>ev. m (fst ev) \<and> isConflict ev) (pre @ [(c, x)]) =
       (if m c \<and> isConflict (c, x) then [(c, x)] else [])"
  by (induction pre) (auto dest: transient_not_conflict)


lemmas run_defs =
  resourceWebACLRead_def resourceWebACLCreate_def resourceWebACLUpdate_def
  resourceWebACLUpdate_rules_def resourceWebACLUpdate_send_def resourceWebACLDelete_def
  retryResourceWebACLUpdateOptmisticLockFailure_def retryResourceWebACLDeleteOptmisticLockFailure_def
  RetryWhenIsA_def RetryWhenIsOneOf2_def CreateWebACL_def GetWebACL_def UpdateWebACL_def
  DeleteWebACL_def findWebACLByThreePartKey_def scriptedClient_def nthOr_def countCalls_def
  exampleData_def exampleOutput_def exampleWebACL_def ErrCodeEquals_def
  WAFOptimisticLockException_def WAFNonexistentItemException_def WAFAssociatedItemException_def
  WAFUnavailableEntityException_def Errorf_def Let_def

text \<open>
  Claim C2. In the requests of one run of the delete callback, at most one
  \<open>DeleteWebACL\<close> request is a conflict-triggered re-attempt (a request whose preceding
  \<open>DeleteWebACL\<close> request ended in an optimistic-lock conflict); at most two
  \<open>DeleteWebACL\<close> requests end in a conflict, and when two do, the callback returns an
  error and the second conflict is the last request of the run. After a conflict followed
  by a refresh that yields a different lock token, every further request is the
  \<open>DeleteWebACL\<close> request carrying the refreshed token.
\<close>

theorem delete_single_conflict_retry:
  assumes run: "resourceWebACLDelete conn d h = (diags, h')"
  shows "conflictRetries isDeleteCall False (drop (length h) h') \<le> 1
     \<and> length (filter (\<lambda>ev. isDeleteCall (fst ev) \<and> isConflict ev) (drop (length h) h')) \<le> 2
     \<and> (length (filter (\<lambda>ev. isDeleteCall (fst ev) \<and> isConflict ev) (drop (length h) h')) = 2 \<longrightarrow>
          HasError diags \<and> isDeleteCall (fst (last h')) \<and> isConflict (last h'))
     \<and> (\<forall>err h1 out h2.
          RetryWhenIsOneOf2 WAFAssociatedItemException WAFUnavailableEntityException conn
            (DeleteWebACL conn \<lparr>DelIn_Id = d_Id d, DelIn_LockToken = Some (d_lock_token d),
                                DelIn_Name = d_name d, DelIn_Scope = d_scope d\<rparr>) h = (Inl err, h1)
          \<and> ErrCodeEquals err WAFOptimisticLockException
          \<and> findWebACLByThreePartKey conn (d_Id d) (d_name d) (d_scope d) h1 = (Inr out, h2)
          \<and> ToString (Out_LockToken out) \<noteq> d_lock_token d \<longrightarrow>
          (\<exists>pre r. h' = h2 @ pre @
                [(CallDeleteWebACL \<lparr>DelIn_Id = d_Id d, DelIn_LockToken = Out_LockToken out,
                                    DelIn_Name = d_name d, DelIn_Scope = d_scope d\<rparr>, r)]
             \<and> (\<forall>ev \<in> set pre. fst ev =
                   CallDeleteWebACL \<lparr>DelIn_Id = d_Id d, DelIn_LockToken = Out_LockToken out,
                                     DelIn_Name = d_name d, DelIn_Scope = d_scope d\<rparr>)))"
proof -
  let ?c1 = "CallDeleteWebACL \<lparr>DelIn_Id = d_Id d, DelIn_LockToken = Some (d_lock_token d),
              DelIn_Name = d_name d, DelIn_Scope = d_scope d\<rparr>"
  let ?gin = "\<lparr>GetIn_Id = d_Id d, GetIn_Name = d_name d, GetIn_Scope = d_scope d\<rparr>"
  let ?K = "\<lambda>ev. isDeleteCall (fst ev) \<and> isConflict ev"
  let ?goal = "\<lambda>es. conflictRetries isDeleteCall False es \<le> 1
     \<and> length (filter ?K es) \<le> 2
     \<and> (length (filter ?K es) = 2 \<longrightarrow>
          HasError diags \<and> isDeleteCall (fst (last h')) \<and> isConflict (last h'))"
  from run show ?thesis
  proof (cases rule: resourceWebACLDelete_cases)
    case (no_conflict pre r)
    have es: "drop (length h) h' = pre @ [(?c1, err_of r)]"
      using no_conflict(2) by simp
    have "?goal (pre @ [(?c1, err_of r)])"
      using segment_conflictRetries [OF no_conflict(3), of isDeleteCall False "err_of r"]
        segment_conflicts [OF no_conflict(3), of isDeleteCall "err_of r"] no_conflict(4)
      by simp
    moreover have "\<And>err h1. (r, h') = (Inl err, h1) \<Longrightarrow> \<not> ErrCodeEquals err WAFOptimisticLockException"
      using no_conflict(4) by (auto simp: isConflict_def)
    ultimately show ?thesis
      using es no_conflict(1) by auto
  next
    case (conflict pre err h1)
    have c1: "isConflict (?c1, Some err)"
      using conflict(4) by (simp add: isConflict_def)
    define s1 where "s1 = pre @ [(?c1, Some err)]"
    have seg1: "conflictRetries isDeleteCall False s1 = 0"
      "pendingAfter isDeleteCall False s1 = True"
      "filter ?K s1 = [(?c1, Some err)]"
      using segment_conflictRetries [OF conflict(3), of isDeleteCall False "Some err"]
        segment_pendingAfter [OF conflict(3), of isDeleteCall False "Some err"]
        segment_conflicts [OF conflict(3), of isDeleteCall "Some err"] c1
      unfolding s1_def by simp_all
    have h1: "h1 = h @ s1"
      using conflict(2) by (simp add: s1_def)
    from conflict(5) show ?thesis
    proof (cases rule: retryDelete_cases)
      case (refresh_failed e g)
      have es: "drop (length h) h' = s1 @ [(CallGetWebACL ?gin, g)]"
        using refresh_failed(2) h1 by simp
      have "?goal (s1 @ [(CallGetWebACL ?gin, g)])"
        by (simp add: conflictRetries_append seg1)
      with es conflict(1) refresh_failed(1) show ?thesis by auto
    next
      case (same_token out g)
      have es: "drop (length h) h' = s1 @ [(CallGetWebACL ?gin, g)]"
        using same_token(2) h1 by simp
      have "?goal (s1 @ [(CallGetWebACL ?gin, g)])"
        by (simp add: conflictRetries_append seg1)
      with es conflict(1) same_token(1,3) show ?thesis by auto
    next
      case (retried out g pre2 r)
      let ?c2 = "CallDeleteWebACL \<lparr>DelIn_Id = d_Id d, DelIn_LockToken = Out_LockToken out,
              DelIn_Name = d_name d, DelIn_Scope = d_scope d\<rparr>"
      define s2 where "s2 = pre2 @ [(?c2, err_of r)]"
      have h': "h' = h @ s1 @ (CallGetWebACL ?gin, g) # s2"
        using retried(3) h1 by (simp add: s2_def)
      then have es: "drop (length h) h' = s1 @ (CallGetWebACL ?gin, g) # s2"
        by simp
      have last: "last h' = (?c2, err_of r)"
        using h' by (simp add: s2_def)
      have seg2: "conflictRetries isDeleteCall True s2 = 1"
        "filter ?K s2 = (if isConflict (?c2, err_of r) then [(?c2, err_of r)] else [])"
        using segment_conflictRetries [OF retried(4), of isDeleteCall True "err_of r"]
          segment_conflicts [OF retried(4), of isDeleteCall "err_of r"]
        unfolding s2_def by simp_all
      have err: "isConflict (?c2, err_of r) \<Longrightarrow> HasError diags"
        using retried(5) by (cases r) (auto simp: isConflict_def HasError_def Errorf_def)
      have "?goal (s1 @ (CallGetWebACL ?gin, g) # s2)"
        using err last by (simp add: conflictRetries_append seg1 seg2)
      moreover have "\<exists>pre' r'. h' = (h1 @ [(CallGetWebACL ?gin, g)]) @ pre' @ [(?c2, r')]
             \<and> (\<forall>ev \<in> set pre'. fst ev = ?c2)"
        using retried(3,4) by (intro exI [of _ pre2] exI [of _ "err_of r"]) simp
      ultimately show ?thesis
        using es conflict(1) retried(1,2) by auto
    qed
  qed
qed


lemma delete_example_run:
  "resourceWebACLDelete
     (scriptedClient [] [Inr (Some (exampleOutput ''t2'' []))] []
        [Inl (AwsError ''WAFOptimisticLockException'' ''stale''),
         Inl (AwsError ''WAFOptimisticLockException'' ''stale again'')] 0)
     exampleData []
   = ([ErrorDiag ''deleting WAFv2 WebACL (abc), resource has changed since last refresh please run a new plan before applying again: stale again''],
      [(CallDeleteWebACL \<lparr>DelIn_Id = ''abc'', DelIn_LockToken = Some ''t1'', DelIn_Name = ''acl'',
                           DelIn_Scope = ''REGIONAL''\<rparr>,
        Some (AwsError ''WAFOptimisticLockException'' ''stale'')),
       (CallGetWebACL \<lparr>GetIn_Id = ''abc'', GetIn_Name = ''acl'', GetIn_Scope = ''REGIONAL''\<rparr>, None),
       (CallDeleteWebACL \<lparr>DelIn_Id = ''abc'', DelIn_LockToken = Some ''t2'', DelIn_Name = ''acl'',
                           DelIn_Scope = ''REGIONAL''\<rparr>,
        Some (AwsError ''WAFOptimisticLockException'' ''stale again''))])"
  by (simp add: run_defs)

theorem delete_single_conflict_retry_witness:
  "conflictRetries isDeleteCall False
     (snd (resourceWebACLDelete
        (scriptedClient [] [Inr (Some (exampleOutput ''t2'' []))] []
           [Inl (AwsError ''WAFOptimisticLockException'' ''stale''),
            Inl (AwsError ''WAFOptimisticLockException'' ''stale again'')] 0)
        exampleData [])) \<le> 1
   \<and> HasError (fst (resourceWebACLDelete
        (scriptedClient [] [Inr (Some (exampleOutput ''t2'' []))] []
           [Inl (AwsError ''WAFOptimisticLockException'' ''stale''),
            Inl (AwsError ''WAFOptimisticLockException'' ''stale again'')] 0)
        exampleData []))
   \<and> isConflict (last (snd (resourceWebACLDelete
        (scriptedClient [] [Inr (Some (exampleOutput ''t2'' []))] []
           [Inl (AwsError ''WAFOptimisticLockException'' ''stale''),
            Inl (AwsError ''WAFOptimisticLockException'' ''stale again'')] 0)
        exampleData [])))"
proof -
  note inst = delete_single_conflict_retry [OF delete_example_run]
  have two: "length (filter (\<lambda>ev. isDeleteCall (fst ev) \<and> isConflict ev)
      [(CallDeleteWebACL \<lparr>DelIn_Id = ''abc'', DelIn_LockToken = Some ''t1'', DelIn_Name = ''acl'',
                           DelIn_Scope = ''REGIONAL''\<rparr>,
        Some (AwsError ''WAFOptimisticLockException'' ''stale'')),
       (CallGetWebACL \<lparr>GetIn_Id = ''abc'', GetIn_Name = ''acl'', GetIn_Scope = ''REGIONAL''\<rparr>, None),
       (CallDeleteWebACL \<lparr>DelIn_Id = ''abc'', DelIn_LockToken = Some ''t2'', DelIn_Name = ''acl'',
                           DelIn_Scope = ''REGIONAL''\<rparr>,
        Some (AwsError ''WAFOptimisticLockException'' ''stale again''))]) = 2"
    by (simp add: isConflict_def ErrCodeEquals_def WAFOptimisticLockException_def)
  from inst two show ?thesis
    unfolding delete_example_run by simp
qed


lemma conflict_not_nonexistent:
  "ErrCodeEquals err WAFOptimisticLockException \<Longrightarrow> \<not> ErrCodeEquals err WAFNonexistentItemException"
  by (auto simp: ErrCodeEquals_def WAFOptimisticLockException_def WAFNonexistentItemException_def)

text \<open>
  Claim C4 as stated fails for the WAFv2 web ACL: after a conflict on the delete request,
  the callback reads the web ACL again, and when that request is answered with
  \<open>WAFNonexistentItemException\<close> the callback returns an error diagnostic.
\<close>

theorem delete_refresh_not_found_is_error:
  "isNonexistent (CallGetWebACL \<lparr>GetIn_Id = ''abc'', GetIn_Name = ''acl'', GetIn_Scope = ''REGIONAL''\<rparr>,
                  Some (AwsError ''WAFNonexistentItemException'' ''gone''))
   \<and> resourceWebACLDelete
     (scriptedClient [] [Inl (AwsError ''WAFNonexistentItemException'' ''gone'')] []
        [Inl (AwsError ''WAFOptimisticLockException'' ''stale'')] 0)
     exampleData []
   = ([ErrorDiag ''refreshing WAFv2 WebACL (abc), attempting to refresh WAFv2 WebACL to retrieve new LockToken: couldn't find resource''],
      [(CallDeleteWebACL \<lparr>DelIn_Id = ''abc'', DelIn_LockToken = Some ''t1'', DelIn_Name = ''acl'',
                           DelIn_Scope = ''REGIONAL''\<rparr>,
        Some (AwsError ''WAFOptimisticLockException'' ''stale'')),
       (CallGetWebACL \<lparr>GetIn_Id = ''abc'', GetIn_Name = ''acl'', GetIn_Scope = ''REGIONAL''\<rparr>,
        Some (AwsError ''WAFNonexistentItemException'' ''gone''))])"
  by (simp add: run_defs isNonexistent_def)

text \<open>
  Claim C4, amended. When a delete request is answered with the not-found error of its
  service, the delete callback returns no diagnostics: for the WAFv2 web ACL this holds
  for every \<open>DeleteWebACL\<close> request of the run (the first one and the one re-attempted
  after a conflict), answered with \<open>WAFNonexistentItemException\<close>; for the Transfer
  certificate and the DeviceFarm upload it holds for the one delete request the callback
  makes.
\<close>

theorem delete_not_found:
  "(\<forall>diags h'. resourceWebACLDelete conn d h = (diags, h')
        \<and> (\<exists>ev \<in> set (drop (length h) h'). isDeleteCall (fst ev) \<and> isNonexistent ev)
      \<longrightarrow> diags = [])
   \<and> (\<forall>err. DeleteCertificate_response tconn (cd_Id cd) = Inl err
        \<and> ErrCodeEquals err transfer_ErrCodeResourceNotFoundException
      \<longrightarrow> resourceCertificateDelete tconn cd = [])
   \<and> (\<forall>err. DeleteUpload_response dconn (ud_Id ud) = Inl err
        \<and> ErrCodeEquals err devicefarm_ErrCodeNotFoundException
      \<longrightarrow> resourceUploadDelete dconn ud = [])"
proof (intro conjI allI impI)
  fix diags h'
  assume a: "resourceWebACLDelete conn d h = (diags, h')
        \<and> (\<exists>ev \<in> set (drop (length h) h'). isDeleteCall (fst ev) \<and> isNonexistent ev)"
  let ?c1 = "CallDeleteWebACL \<lparr>DelIn_Id = d_Id d, DelIn_LockToken = Some (d_lock_token d),
              DelIn_Name = d_name d, DelIn_Scope = d_scope d\<rparr>"
  from a obtain ev where ev: "ev \<in> set (drop (length h) h')" "isDeleteCall (fst ev)" "isNonexistent ev"
    by blast
  from a have run: "resourceWebACLDelete conn d h = (diags, h')" by simp
  from run show "diags = []"
  proof (cases rule: resourceWebACLDelete_cases)
    case (no_conflict pre r)
    from ev(1) no_conflict(2) have "ev \<in> set pre \<or> ev = (?c1, err_of r)" by auto
    with no_conflict(3) ev(3) have "isNonexistent (?c1, err_of r)"
      by (auto dest: transient_not_nonexistent)
    with no_conflict(5) show ?thesis
      by (cases r) (auto simp: isNonexistent_def)
  next
    case (conflict pre err h1)
    have not1: "\<not> isNonexistent (?c1, Some err)"
      using conflict(4) by (simp add: isNonexistent_def conflict_not_nonexistent)
    from conflict(5) show ?thesis
    proof (cases rule: retryDelete_cases)
      case (refresh_failed e g)
      from ev(1) refresh_failed(2) conflict(2)
      have "ev \<in> set pre \<or> ev = (?c1, Some err)
          \<or> ev = (CallGetWebACL \<lparr>GetIn_Id = d_Id d, GetIn_Name = d_name d, GetIn_Scope = d_scope d\<rparr>, g)"
        by auto
      with conflict(3) ev(2,3) not1 show ?thesis
        by (auto dest: transient_not_nonexistent)
    next
      case (same_token out g)
      then show ?thesis by simp
    next
      case (retried out g pre2 r)
      let ?c2 = "CallDeleteWebACL \<lparr>DelIn_Id = d_Id d, DelIn_LockToken = Out_LockToken out,
              DelIn_Name = d_name d, DelIn_Scope = d_scope d\<rparr>"
      from ev(1) retried(3) conflict(2)
      have "ev \<in> set pre \<or> ev = (?c1, Some err)
          \<or> ev = (CallGetWebACL \<lparr>GetIn_Id = d_Id d, GetIn_Name = d_name d, GetIn_Scope = d_scope d\<rparr>, g)
          \<or> ev \<in> set pre2 \<or> ev = (?c2, err_of r)"
        by auto
      with conflict(3) retried(4) ev(2,3) not1 have "isNonexistent (?c2, err_of r)"
        by (auto dest: transient_not_nonexistent)
      with retried(5) show ?thesis
        by (cases r) (auto simp: isNonexistent_def dest: conflict_not_nonexistent)
    qed
  qed
next
  fix err
  assume "DeleteCertificate_response tconn (cd_Id cd) = Inl err
        \<and> ErrCodeEquals err transfer_ErrCodeResourceNotFoundException"
  then show "resourceCertificateDelete tconn cd = []"
    by (simp add: resourceCertificateDelete_def)
next
  fix err
  assume "DeleteUpload_response dconn (ud_Id ud) = Inl err
        \<and> ErrCodeEquals err devicefarm_ErrCodeNotFoundException"
  then show "resourceUploadDelete dconn ud = []"
    by (simp add: resourceUploadDelete_def)
qed

lemma delete_gone_run:
  "resourceWebACLDelete
     (scriptedClient [] [] [] [Inl (AwsError ''WAFNonexistentItemException'' ''gone'')] 0)
     exampleData []
   = ([],
      [(CallDeleteWebACL \<lparr>DelIn_Id = ''abc'', DelIn_LockToken = Some ''t1'', DelIn_Name = ''acl'',
                           DelIn_Scope = ''REGIONAL''\<rparr>,
        Some (AwsError ''WAFNonexistentItemException'' ''gone''))])"
  by (simp add: run_defs)

theorem delete_not_found_witness:
  "fst (resourceWebACLDelete
     (scriptedClient [] [] [] [Inl (AwsError ''WAFNonexistentItemException'' ''gone'')] 0)
     exampleData []) = []
   \<and> resourceCertificateDelete
       (exampleTransferConn (Inr None) (Inl EmptyResultError) (Inr ())
          (Inl (AwsError ''ResourceNotFoundException'' ''gone''))) exampleCertificateData = []
   \<and> resourceUploadDelete
       (exampleDeviceFarmConn (Inr None) (Inl EmptyResultError) (Inr ())
          (Inl (AwsError ''NotFoundException'' ''gone''))) exampleUploadData = []"
proof -
  let ?conn = "scriptedClient [] [] [] [Inl (AwsError ''WAFNonexistentItemException'' ''gone'')] 0"
  let ?tconn = "exampleTransferConn (Inr None) (Inl EmptyResultError) (Inr ())
          (Inl (AwsError ''ResourceNotFoundException'' ''gone''))"
  let ?dconn = "exampleDeviceFarmConn (Inr None) (Inl EmptyResultError) (Inr ())
          (Inl (AwsError ''NotFoundException'' ''gone''))"
  note inst = delete_not_found [of ?conn exampleData "[]" ?tconn exampleCertificateData ?dconn exampleUploadData]
  have a: "fst (resourceWebACLDelete ?conn exampleData []) = []"
    using inst [THEN conjunct1, rule_format, of "fst (resourceWebACLDelete ?conn exampleData [])"
        "snd (resourceWebACLDelete ?conn exampleData [])"]
    unfolding delete_gone_run
    by (simp add: isNonexistent_def ErrCodeEquals_def WAFNonexistentItemException_def)
  have b: "resourceCertificateDelete ?tconn exampleCertificateData = []"
    using inst [THEN conjunct2, THEN conjunct1, rule_format, of "AwsError ''ResourceNotFoundException'' ''gone''"]
    by (simp add: exampleTransferConn_def ErrCodeEquals_def transfer_ErrCodeResourceNotFoundException_def)
  have c: "resourceUploadDelete ?dconn exampleUploadData = []"
    using inst [THEN conjunct2, THEN conjunct2, rule_format, of "AwsError ''NotFoundException'' ''gone''"]
    by (simp add: exampleDeviceFarmConn_def ErrCodeEquals_def devicefarm_ErrCodeNotFoundException_def)
  from a b c show ?thesis by simp
qed


section \<open>The conflict retry of update and delete\<close>

text \<open>
  Claim C8. When the update or the delete mutation has failed with an optimistic-lock
  conflict and the refreshed lock token equals the token the callback holds, the callback
  returns no diagnostics, and the refresh request is the only request made after the
  conflict: the mutation is not sent again.
\<close>

theorem same_token_no_retry:
  "(\<forall>rules h0 err h1 out h2.
      d_HasChangesExceptTags d
      \<and> resourceWebACLUpdate_rules conn d h = (Return (Inr rules), h0)
      \<and> RetryWhenIsA WAFUnavailableEntityException conn
           (UpdateWebACL conn \<lparr>UpdIn_Id = d_Id d, UpdIn_LockToken = Some (d_lock_token d),
              UpdIn_Name = d_name d, UpdIn_Rules = rules, UpdIn_Scope = d_scope d,
              UpdIn_Settings = d_settings d\<rparr>) h0 = (Inl err, h1)
      \<and> ErrCodeEquals err WAFOptimisticLockException
      \<and> findWebACLByThreePartKey conn (d_Id d) (d_name d) (d_scope d) h1 = (Inr out, h2)
      \<and> ToString (Out_LockToken out) = d_lock_token d
      \<longrightarrow> resourceWebACLUpdate conn d h = (Return ([], d), h2)
          \<and> h2 = h1 @ [(CallGetWebACL \<lparr>GetIn_Id = d_Id d, GetIn_Name = d_name d,
                                         GetIn_Scope = d_scope d\<rparr>, None)])
   \<and> (\<forall>err h1 out h2.
      RetryWhenIsOneOf2 WAFAssociatedItemException WAFUnavailableEntityException conn
           (DeleteWebACL conn \<lparr>DelIn_Id = d_Id d, DelIn_LockToken = Some (d_lock_token d),
              DelIn_Name = d_name d, DelIn_Scope = d_scope d\<rparr>) h = (Inl err, h1)
      \<and> ErrCodeEquals err WAFOptimisticLockException
      \<and> findWebACLByThreePartKey conn (d_Id d) (d_name d) (d_scope d) h1 = (Inr out, h2)
      \<and> ToString (Out_LockToken out) = d_lock_token d
      \<longrightarrow> resourceWebACLDelete conn d h = ([], h2)
          \<and> h2 = h1 @ [(CallGetWebACL \<lparr>GetIn_Id = d_Id d, GetIn_Name = d_name d,
                                         GetIn_Scope = d_scope d\<rparr>, None)])"
proof -
  have get_ok: "\<And>h1 out h2. findWebACLByThreePartKey conn (d_Id d) (d_name d) (d_scope d) h1 = (Inr out, h2)
      \<Longrightarrow> h2 = h1 @ [(CallGetWebACL \<lparr>GetIn_Id = d_Id d, GetIn_Name = d_name d,
                                         GetIn_Scope = d_scope d\<rparr>, None)]"
    by (auto simp: findWebACLByThreePartKey_def GetWebACL_def Let_def
        split: sum.splits option.splits if_splits)
  show ?thesis
    by (auto simp: resourceWebACLUpdate_def resourceWebACLUpdate_send_def
        retryResourceWebACLUpdateOptmisticLockFailure_def resourceWebACLDelete_def
        retryResourceWebACLDeleteOptmisticLockFailure_def Let_def dest: get_ok)
qed


theorem same_token_no_retry_witness:
  "resourceWebACLUpdate
     (scriptedClient [] [Inr (Some (exampleOutput ''t0'' [])), Inr (Some (exampleOutput ''t1'' []))]
        [Inl (AwsError ''WAFOptimisticLockException'' ''stale'')] [] 0)
     exampleData []
   = (Return ([], exampleData),
      [(CallGetWebACL \<lparr>GetIn_Id = ''abc'', GetIn_Name = ''acl'', GetIn_Scope = ''REGIONAL''\<rparr>, None),
       (CallUpdateWebACL \<lparr>UpdIn_Id = ''abc'', UpdIn_LockToken = Some ''t1'', UpdIn_Name = ''acl'',
                           UpdIn_Rules = [], UpdIn_Scope = ''REGIONAL'', UpdIn_Settings = []\<rparr>,
        Some (AwsError ''WAFOptimisticLockException'' ''stale'')),
       (CallGetWebACL \<lparr>GetIn_Id = ''abc'', GetIn_Name = ''acl'', GetIn_Scope = ''REGIONAL''\<rparr>, None)])
   \<and> resourceWebACLDelete
     (scriptedClient [] [Inr (Some (exampleOutput ''t1'' []))] []
        [Inl (AwsError ''WAFOptimisticLockException'' ''stale'')] 0)
     exampleData []
   = ([],
      [(CallDeleteWebACL \<lparr>DelIn_Id = ''abc'', DelIn_LockToken = Some ''t1'', DelIn_Name = ''acl'',
                           DelIn_Scope = ''REGIONAL''\<rparr>,
        Some (AwsError ''WAFOptimisticLockException'' ''stale'')),
       (CallGetWebACL \<lparr>GetIn_Id = ''abc'', GetIn_Name = ''acl'', GetIn_Scope = ''REGIONAL''\<rparr>, None)])"
proof -
  let ?stale = "AwsError ''WAFOptimisticLockException'' ''stale''"
  let ?uconn = "scriptedClient [] [Inr (Some (exampleOutput ''t0'' [])), Inr (Some (exampleOutput ''t1'' []))]
        [Inl ?stale] [] 0"
  let ?dconn = "scriptedClient [] [Inr (Some (exampleOutput ''t1'' []))] [] [Inl ?stale] 0"
  let ?gev = "(CallGetWebACL \<lparr>GetIn_Id = ''abc'', GetIn_Name = ''acl'', GetIn_Scope = ''REGIONAL''\<rparr>, None)"
  let ?uin = "\<lparr>UpdIn_Id = ''abc'', UpdIn_LockToken = Some ''t1'', UpdIn_Name = ''acl'',
                UpdIn_Rules = [], UpdIn_Scope = ''REGIONAL'', UpdIn_Settings = []\<rparr>"
  let ?din = "\<lparr>DelIn_Id = ''abc'', DelIn_LockToken = Some ''t1'', DelIn_Name = ''acl'',
                DelIn_Scope = ''REGIONAL''\<rparr>"
  have u1: "d_HasChangesExceptTags exampleData"
    by (simp add: exampleData_def)
  have u2: "resourceWebACLUpdate_rules ?uconn exampleData [] = (Return (Inr []), [?gev])"
    by (simp add: run_defs)
  have u3: "RetryWhenIsA WAFUnavailableEntityException ?uconn
           (UpdateWebACL ?uconn \<lparr>UpdIn_Id = d_Id exampleData, UpdIn_LockToken = Some (d_lock_token exampleData),
              UpdIn_Name = d_name exampleData, UpdIn_Rules = [], UpdIn_Scope = d_scope exampleData,
              UpdIn_Settings = d_settings exampleData\<rparr>) [?gev]
         = (Inl ?stale, [?gev, (CallUpdateWebACL ?uin, Some ?stale)])"
    by (simp add: run_defs)
  have u4: "ErrCodeEquals ?stale WAFOptimisticLockException"
    by (simp add: run_defs)
  have u5: "findWebACLByThreePartKey ?uconn (d_Id exampleData) (d_name exampleData) (d_scope exampleData)
         [?gev, (CallUpdateWebACL ?uin, Some ?stale)]
       = (Inr (exampleOutput ''t1'' []), [?gev, (CallUpdateWebACL ?uin, Some ?stale), ?gev])"
    by (simp add: run_defs)
  have u6: "ToString (Out_LockToken (exampleOutput ''t1'' [])) = d_lock_token exampleData"
    by (simp add: run_defs)
  have d1: "RetryWhenIsOneOf2 WAFAssociatedItemException WAFUnavailableEntityException ?dconn
           (DeleteWebACL ?dconn \<lparr>DelIn_Id = d_Id exampleData, DelIn_LockToken = Some (d_lock_token exampleData),
              DelIn_Name = d_name exampleData, DelIn_Scope = d_scope exampleData\<rparr>) []
         = (Inl ?stale, [(CallDeleteWebACL ?din, Some ?stale)])"
    by (simp add: run_defs)
  have d2: "findWebACLByThreePartKey ?dconn (d_Id exampleData) (d_name exampleData) (d_scope exampleData)
         [(CallDeleteWebACL ?din, Some ?stale)]
       = (Inr (exampleOutput ''t1'' []), [(CallDeleteWebACL ?din, Some ?stale), ?gev])"
    by (simp add: run_defs)
  have a: "resourceWebACLUpdate ?uconn exampleData []
      = (Return ([], exampleData), [?gev, (CallUpdateWebACL ?uin, Some ?stale), ?gev])"
    using same_token_no_retry [of exampleData ?uconn "[]", THEN conjunct1, rule_format,
        of "[]" "[?gev]" ?stale "[?gev, (CallUpdateWebACL ?uin, Some ?stale)]"
           "exampleOutput ''t1'' []" "[?gev, (CallUpdateWebACL ?uin, Some ?stale), ?gev]"]
      u1 u2 u3 u4 u5 u6 by blast
  have b: "resourceWebACLDelete ?dconn exampleData []
      = ([], [(CallDeleteWebACL ?din, Some ?stale), ?gev])"
    using same_token_no_retry [of exampleData ?dconn "[]", THEN conjunct2, rule_format,
        of ?stale "[(CallDeleteWebACL ?din, Some ?stale)]"
           "exampleOutput ''t1'' []" "[(CallDeleteWebACL ?din, Some ?stale), ?gev]"]
      d1 d2 u4 u6 by blast
  from a b show ?thesis by simp
qed


lemma resourceWebACLUpdate_rules_step:
  "resourceWebACLUpdate_rules conn d h = (res, h0) \<Longrightarrow>
     h0 = h \<or> (\<exists>g. h0 = h @ [(CallGetWebACL \<lparr>GetIn_Id = d_Id d, GetIn_Name = d_name d,
                                                GetIn_Scope = d_scope d\<rparr>, g)])"
proof (cases "findShieldRule (d_rule d) = []")
  case False
  assume "resourceWebACLUpdate_rules conn d h = (res, h0)"
  with False show ?thesis by (simp add: resourceWebACLUpdate_rules_def)
next
  case True
  assume run: "resourceWebACLUpdate_rules conn d h = (res, h0)"
  obtain fr hf where fr: "findWebACLByThreePartKey conn (d_Id d) (d_name d) (d_scope d) h = (fr, hf)"
    by (cases "findWebACLByThreePartKey conn (d_Id d) (d_name d) (d_scope d) h")
  with run True have "h0 = hf"
    by (auto simp: resourceWebACLUpdate_rules_def Let_def split: sum.splits option.splits)
  with find_step [OF fr] show ?thesis by blast
qed

text \<open>
  Claim C1. When the \<open>UpdateWebACL\<close> mutation of the update callback has failed with an
  optimistic-lock conflict, the callback reads the web ACL again; when the lock token it
  gets differs from the token it holds, it sends the same request with the refreshed
  token. Every request after the refresh is that request, re-sent by the retry helper
  only after a transient error, so the log of the run has exactly one conflict-triggered
  re-attempt. The callback returns the conflict error diagnostic when the last answer is
  an optimistic-lock conflict, and no diagnostics otherwise.
\<close>

theorem update_conflict_retry:
  assumes chg: "d_HasChangesExceptTags d"
    and rules: "resourceWebACLUpdate_rules conn d h = (Return (Inr rules), h0)"
    and first: "RetryWhenIsA WAFUnavailableEntityException conn
           (UpdateWebACL conn \<lparr>UpdIn_Id = d_Id d, UpdIn_LockToken = Some (d_lock_token d),
              UpdIn_Name = d_name d, UpdIn_Rules = rules, UpdIn_Scope = d_scope d,
              UpdIn_Settings = d_settings d\<rparr>) h0 = (Inl err, h1)"
    and conflict: "ErrCodeEquals err WAFOptimisticLockException"
    and refresh: "findWebACLByThreePartKey conn (d_Id d) (d_name d) (d_scope d) h1 = (Inr out, h2)"
    and differ: "ToString (Out_LockToken out) \<noteq> d_lock_token d"
  shows "\<exists>pre (r :: aws_error + unit) diags h'.
      resourceWebACLUpdate conn d h = (Return (diags, d), h')
      \<and> h2 = h1 @ [(CallGetWebACL \<lparr>GetIn_Id = d_Id d, GetIn_Name = d_name d,
                                     GetIn_Scope = d_scope d\<rparr>, None)]
      \<and> h' = h2 @ pre @
            [(CallUpdateWebACL \<lparr>UpdIn_Id = d_Id d, UpdIn_LockToken = Out_LockToken out,
                UpdIn_Name = d_name d, UpdIn_Rules = rules, UpdIn_Scope = d_scope d,
                UpdIn_Settings = d_settings d\<rparr>, err_of r)]
      \<and> (\<forall>ev \<in> set pre. fst ev =
            CallUpdateWebACL \<lparr>UpdIn_Id = d_Id d, UpdIn_LockToken = Out_LockToken out,
                UpdIn_Name = d_name d, UpdIn_Rules = rules, UpdIn_Scope = d_scope d,
                UpdIn_Settings = d_settings d\<rparr> \<and> isTransient ev)
      \<and> diags = (case r of
                   Inl err2 \<Rightarrow>
                     if ErrCodeEquals err2 WAFOptimisticLockException
                     then [ErrorDiag (''updating WAFv2 WebACL ('' @ d_Id d @
                            ''), resource has changed since last refresh please run a new plan before applying again: ''
                            @ Text err2)]
                     else []
                 | Inr v \<Rightarrow> [])
      \<and> conflictRetries isUpdateCall False (drop (length h) h') = 1"
proof -
  let ?gin = "\<lparr>GetIn_Id = d_Id d, GetIn_Name = d_name d, GetIn_Scope = d_scope d\<rparr>"
  let ?in1 = "\<lparr>UpdIn_Id = d_Id d, UpdIn_LockToken = Some (d_lock_token d),
              UpdIn_Name = d_name d, UpdIn_Rules = rules, UpdIn_Scope = d_scope d,
              UpdIn_Settings = d_settings d\<rparr>"
  let ?in2 = "\<lparr>UpdIn_Id = d_Id d, UpdIn_LockToken = Out_LockToken out,
                UpdIn_Name = d_name d, UpdIn_Rules = rules, UpdIn_Scope = d_scope d,
                UpdIn_Settings = d_settings d\<rparr>"
  have in2: "?in1\<lparr>UpdIn_LockToken := Out_LockToken out\<rparr> = ?in2" by simp
  obtain r :: "aws_error + unit" and h3 where
    w: "RetryWhenIsOneOf2 WAFAssociatedItemException WAFUnavailableEntityException conn
          (UpdateWebACL conn ?in2) h2 = (r, h3)"
    by (cases "RetryWhenIsOneOf2 WAFAssociatedItemException WAFUnavailableEntityException conn
          (UpdateWebACL conn ?in2) h2")
  from RetryWhenIsOneOf2_trace [OF UpdateWebACL_step w] obtain pre where
    pre: "h3 = h2 @ pre @ [(CallUpdateWebACL ?in2, err_of r)]"
      "\<forall>ev \<in> set pre. fst ev = CallUpdateWebACL ?in2 \<and> isTransient ev" by blast
  define diags where "diags = (case r of
                   Inl err2 \<Rightarrow>
                     if ErrCodeEquals err2 WAFOptimisticLockException
                     then [ErrorDiag (''updating WAFv2 WebACL ('' @ d_Id d @
                            ''), resource has changed since last refresh please run a new plan before applying again: ''
                            @ Text err2)]
                     else []
                 | Inr v \<Rightarrow> [])"
  have retry: "retryResourceWebACLUpdateOptmisticLockFailure conn (d_Id d) (d_name d) (d_scope d)
                 (d_lock_token d) ?in1 h1 = (diags, h3)"
    using refresh differ w
    by (auto simp: retryResourceWebACLUpdateOptmisticLockFailure_def in2 diags_def Errorf_def
        split: sum.splits)
  have run: "resourceWebACLUpdate conn d h = (Return (diags, d), h3)"
    using chg rules first conflict retry
    by (simp add: resourceWebACLUpdate_def resourceWebACLUpdate_send_def Let_def)
  have h2: "h2 = h1 @ [(CallGetWebACL ?gin, None)]"
    using refresh
    by (auto simp: findWebACLByThreePartKey_def GetWebACL_def Let_def
        split: sum.splits option.splits if_splits)
  from RetryWhenIsA_trace [OF UpdateWebACL_step first] obtain pre1 where
    pre1: "h1 = h0 @ pre1 @ [(CallUpdateWebACL ?in1, Some err)]"
      "\<forall>ev \<in> set pre1. fst ev = CallUpdateWebACL ?in1 \<and> isTransient ev" by auto
  define s0 where "s0 = drop (length h) h0"
  define s1 where "s1 = pre1 @ [(CallUpdateWebACL ?in1, Some err)]"
  define s2 where "s2 = pre @ [(CallUpdateWebACL ?in2, err_of r)]"
  from resourceWebACLUpdate_rules_step [OF rules]
  have h0: "h0 = h @ s0" and s0: "s0 = [] \<or> (\<exists>g. s0 = [(CallGetWebACL ?gin, g)])"
    unfolding s0_def by auto
  have seg0: "conflictRetries isUpdateCall False s0 = 0" "pendingAfter isUpdateCall False s0 = False"
    using s0 by auto
  have c1: "isConflict (CallUpdateWebACL ?in1, Some err)"
    using conflict by (simp add: isConflict_def)
  have seg1: "conflictRetries isUpdateCall False s1 = 0" "pendingAfter isUpdateCall False s1 = True"
    using segment_conflictRetries [OF pre1(2), of isUpdateCall False "Some err"]
      segment_pendingAfter [OF pre1(2), of isUpdateCall False "Some err"] c1
    unfolding s1_def by simp_all
  have seg2: "conflictRetries isUpdateCall True s2 = 1"
    using segment_conflictRetries [OF pre(2), of isUpdateCall True "err_of r"]
    unfolding s2_def by simp
  have "h3 = h @ s0 @ s1 @ (CallGetWebACL ?gin, None) # s2"
    using pre(1) h2 pre1(1) h0 by (simp add: s1_def s2_def)
  then have es: "drop (length h) h3 = s0 @ s1 @ (CallGetWebACL ?gin, None) # s2" by simp
  have count: "conflictRetries isUpdateCall False (drop (length h) h3) = 1"
    unfolding es by (simp add: conflictRetries_append pendingAfter_append seg0 seg1 seg2)
  show ?thesis
  proof (intro exI conjI)
    show "resourceWebACLUpdate conn d h = (Return (diags, d), h3)" by (rule run)
    show "h2 = h1 @ [(CallGetWebACL ?gin, None)]" by (rule h2)
    show "h3 = h2 @ pre @ [(CallUpdateWebACL ?in2, err_of r)]" by (rule pre(1))
    show "\<forall>ev \<in> set pre. fst ev = CallUpdateWebACL ?in2 \<and> isTransient ev" by (rule pre(2))
    show "diags = (case r of
                   Inl err2 \<Rightarrow>
                     if ErrCodeEquals err2 WAFOptimisticLockException
                     then [ErrorDiag (''updating WAFv2 WebACL ('' @ d_Id d @
                            ''), resource has changed since last refresh please run a new plan before applying again: ''
                            @ Text err2)]
                     else []
                 | Inr v \<Rightarrow> [])" by (rule diags_def)
    show "conflictRetries isUpdateCall False (drop (length h) h3) = 1" by (rule count)
  qed
qed


theorem update_conflict_retry_witness:
  "conflictRetries isUpdateCall False
     (snd (resourceWebACLUpdate
        (scriptedClient [] [Inr (Some (exampleOutput ''t0'' [])), Inr (Some (exampleOutput ''t2'' []))]
           [Inl (AwsError ''WAFOptimisticLockException'' ''stale''),
            Inl (AwsError ''WAFUnavailableEntityException'' ''busy''), Inr ()] [] (Suc 0))
        exampleData [])) = 1
   \<and> resourceWebACLUpdate
        (scriptedClient [] [Inr (Some (exampleOutput ''t0'' [])), Inr (Some (exampleOutput ''t2'' []))]
           [Inl (AwsError ''WAFOptimisticLockException'' ''stale''),
            Inl (AwsError ''WAFUnavailableEntityException'' ''busy''), Inr ()] [] (Suc 0))
        exampleData []
     = (Return ([], exampleData),
        [(CallGetWebACL \<lparr>GetIn_Id = ''abc'', GetIn_Name = ''acl'', GetIn_Scope = ''REGIONAL''\<rparr>, None),
         (CallUpdateWebACL \<lparr>UpdIn_Id = ''abc'', UpdIn_LockToken = Some ''t1'', UpdIn_Name = ''acl'',
                             UpdIn_Rules = [], UpdIn_Scope = ''REGIONAL'', UpdIn_Settings = []\<rparr>,
          Some (AwsError ''WAFOptimisticLockException'' ''stale'')),
         (CallGetWebACL \<lparr>GetIn_Id = ''abc'', GetIn_Name = ''acl'', GetIn_Scope = ''REGIONAL''\<rparr>, None),
         (CallUpdateWebACL \<lparr>UpdIn_Id = ''abc'', UpdIn_LockToken = Some ''t2'', UpdIn_Name = ''acl'',
                             UpdIn_Rules = [], UpdIn_Scope = ''REGIONAL'', UpdIn_Settings = []\<rparr>,
          Some (AwsError ''WAFUnavailableEntityException'' ''busy'')),
         (CallUpdateWebACL \<lparr>UpdIn_Id = ''abc'', UpdIn_LockToken = Some ''t2'', UpdIn_Name = ''acl'',
                             UpdIn_Rules = [], UpdIn_Scope = ''REGIONAL'', UpdIn_Settings = []\<rparr>,
          None)])"
proof -
  let ?stale = "AwsError ''WAFOptimisticLockException'' ''stale''"
  let ?conn = "scriptedClient [] [Inr (Some (exampleOutput ''t0'' [])), Inr (Some (exampleOutput ''t2'' []))]
           [Inl ?stale, Inl (AwsError ''WAFUnavailableEntityException'' ''busy''), Inr ()] [] (Suc 0)"
  let ?gev = "(CallGetWebACL \<lparr>GetIn_Id = ''abc'', GetIn_Name = ''acl'', GetIn_Scope = ''REGIONAL''\<rparr>, None)"
  let ?uin = "\<lparr>UpdIn_Id = ''abc'', UpdIn_LockToken = Some ''t1'', UpdIn_Name = ''acl'',
                UpdIn_Rules = [], UpdIn_Scope = ''REGIONAL'', UpdIn_Settings = []\<rparr>"
  have u1: "d_HasChangesExceptTags exampleData"
    by (simp add: exampleData_def)
  have u2: "resourceWebACLUpdate_rules ?conn exampleData [] = (Return (Inr []), [?gev])"
    by (simp add: run_defs)
  have u3: "RetryWhenIsA WAFUnavailableEntityException ?conn
           (UpdateWebACL ?conn \<lparr>UpdIn_Id = d_Id exampleData, UpdIn_LockToken = Some (d_lock_token exampleData),
              UpdIn_Name = d_name exampleData, UpdIn_Rules = [], UpdIn_Scope = d_scope exampleData,
              UpdIn_Settings = d_settings exampleData\<rparr>) [?gev]
         = (Inl ?stale, [?gev, (CallUpdateWebACL ?uin, Some ?stale)])"
    by (simp add: run_defs)
  have u4: "ErrCodeEquals ?stale WAFOptimisticLockException"
    by (simp add: run_defs)
  have u5: "findWebACLByThreePartKey ?conn (d_Id exampleData) (d_name exampleData) (d_scope exampleData)
         [?gev, (CallUpdateWebACL ?uin, Some ?stale)]
       = (Inr (exampleOutput ''t2'' []), [?gev, (CallUpdateWebACL ?uin, Some ?stale), ?gev])"
    by (simp add: run_defs)
  have u6: "ToString (Out_LockToken (exampleOutput ''t2'' [])) \<noteq> d_lock_token exampleData"
    by (simp add: run_defs)
  from update_conflict_retry [OF u1 u2 u3 u4 u5 u6] obtain diags h' where
    run: "resourceWebACLUpdate ?conn exampleData [] = (Return (diags, exampleData), h')"
    and count: "conflictRetries isUpdateCall False (drop (length ([] :: event list)) h') = 1"
    by blast
  have a: "conflictRetries isUpdateCall False (snd (resourceWebACLUpdate ?conn exampleData [])) = 1"
    using run count by simp
  have b: "resourceWebACLUpdate ?conn exampleData []
     = (Return ([], exampleData),
        [?gev, (CallUpdateWebACL ?uin, Some ?stale), ?gev,
         (CallUpdateWebACL (?uin\<lparr>UpdIn_LockToken := Some ''t2''\<rparr>),
          Some (AwsError ''WAFUnavailableEntityException'' ''busy'')),
         (CallUpdateWebACL (?uin\<lparr>UpdIn_LockToken := Some ''t2''\<rparr>), None)])"
    by (simp add: run_defs)
  from a b show ?thesis by simp
qed


section \<open>The Shield mitigation rule\<close>

lemma inConfigLoop_iff:
  "inConfigLoop b configRules r \<longleftrightarrow>
     b \<and> ToString (Rule_Name r) \<notin> set (map (\<lambda>cr. ToString (Rule_Name cr)) configRules)"
  by (induction configRules arbitrary: b) auto

lemma filterLoop_filter:
  "filterLoop sr0 configRules fr rules =
     fr @ filter (\<lambda>r. \<not> (ToString (Rule_Name r) = ToString (Rule_Name sr0)
                        \<and> ToString (Rule_Name r) \<notin> set (map (\<lambda>cr. ToString (Rule_Name cr)) configRules)))
            rules"
  by (induction rules arbitrary: fr) (simp_all add: inConfigLoop_iff)

lemma resourceWebACLRead_step:
  "resourceWebACLRead conn d h = (res, h') \<Longrightarrow>
     \<exists>g. h' = h @ [(CallGetWebACL \<lparr>GetIn_Id = d_Id d, GetIn_Name = d_name d,
                                    GetIn_Scope = d_scope d\<rparr>, g)]"
proof -
  assume run: "resourceWebACLRead conn d h = (res, h')"
  obtain fr hf where fr: "findWebACLByThreePartKey conn (d_Id d) (d_name d) (d_scope d) h = (fr, hf)"
    by (cases "findWebACLByThreePartKey conn (d_Id d) (d_name d) (d_scope d) h")
  with run have "h' = hf"
    by (auto simp: resourceWebACLRead_def split: sum.splits option.splits if_splits)
  with find_step [OF fr] show ?thesis by blast
qed

lemma findShieldRule_filter:
  "findShieldRule rules = filter (\<lambda>r. MatchString (ToString (Rule_Name r))) rules"
  by (induction rules) simp_all

lemma exampleShieldRule_matches: "MatchString (ToString (Rule_Name (exampleShieldRule suffix)))"
  by (simp add: exampleShieldRule_def MatchString_def shieldPattern_def isDigit_def isHexDigit_def)

lemma examplePlainRule_no_match: "\<not> MatchString (ToString (Rule_Name examplePlainRule))"
  by (simp add: examplePlainRule_def MatchString_def shieldPattern_def)

text \<open>
  Claim C9. The comment in \<open>resourceWebACLUpdate\<close> says that the Shield rule of the
  remote web ACL is added to the rules of the request "so that the provider will not
  remove the Shield rule". The conflict retry breaks this: it refreshes the lock token of
  the request and nothing else. In the run below no configured rule is a Shield rule, the
  first read of the web ACL shows no Shield rule, the update fails with a conflict, and the
  refresh shows a Shield rule added in between; the request sent again, which succeeds,
  still carries the rules computed from the first read, so it removes the Shield rule.
\<close>

theorem update_retry_sends_stale_rules:
  "findShieldRule [examplePlainRule] = []
   \<and> findShieldRule [examplePlainRule, exampleShieldRule ''a''] = [exampleShieldRule ''a'']
   \<and> resourceWebACLUpdate
     (scriptedClient []
        [Inr (Some (exampleOutput ''t1'' [examplePlainRule])),
         Inr (Some (exampleOutput ''t2'' [examplePlainRule, exampleShieldRule ''a'']))]
        [Inl (AwsError ''WAFOptimisticLockException'' ''stale''), Inr ()] [] 0)
     exampleData []
   = (Return ([], exampleData),
      [(CallGetWebACL \<lparr>GetIn_Id = ''abc'', GetIn_Name = ''acl'', GetIn_Scope = ''REGIONAL''\<rparr>, None),
       (CallUpdateWebACL \<lparr>UpdIn_Id = ''abc'', UpdIn_LockToken = Some ''t1'', UpdIn_Name = ''acl'',
                           UpdIn_Rules = [], UpdIn_Scope = ''REGIONAL'', UpdIn_Settings = []\<rparr>,
        Some (AwsError ''WAFOptimisticLockException'' ''stale'')),
       (CallGetWebACL \<lparr>GetIn_Id = ''abc'', GetIn_Name = ''acl'', GetIn_Scope = ''REGIONAL''\<rparr>, None),
       (CallUpdateWebACL \<lparr>UpdIn_Id = ''abc'', UpdIn_LockToken = Some ''t2'', UpdIn_Name = ''acl'',
                           UpdIn_Rules = [], UpdIn_Scope = ''REGIONAL'', UpdIn_Settings = []\<rparr>,
        None)])"
proof -
  have a: "findShieldRule [examplePlainRule] = []"
    by (simp add: examplePlainRule_no_match)
  have b: "findShieldRule [examplePlainRule, exampleShieldRule ''a''] = [exampleShieldRule ''a'']"
    by (simp add: examplePlainRule_no_match exampleShieldRule_matches)
  have c: "resourceWebACLUpdate
     (scriptedClient []
        [Inr (Some (exampleOutput ''t1'' [examplePlainRule])),
         Inr (Some (exampleOutput ''t2'' [examplePlainRule, exampleShieldRule ''a'']))]
        [Inl (AwsError ''WAFOptimisticLockException'' ''stale''), Inr ()] [] 0)
     exampleData []
   = (Return ([], exampleData),
      [(CallGetWebACL \<lparr>GetIn_Id = ''abc'', GetIn_Name = ''acl'', GetIn_Scope = ''REGIONAL''\<rparr>, None),
       (CallUpdateWebACL \<lparr>UpdIn_Id = ''abc'', UpdIn_LockToken = Some ''t1'', UpdIn_Name = ''acl'',
                           UpdIn_Rules = [], UpdIn_Scope = ''REGIONAL'', UpdIn_Settings = []\<rparr>,
        Some (AwsError ''WAFOptimisticLockException'' ''stale'')),
       (CallGetWebACL \<lparr>GetIn_Id = ''abc'', GetIn_Name = ''acl'', GetIn_Scope = ''REGIONAL''\<rparr>, None),
       (CallUpdateWebACL \<lparr>UpdIn_Id = ''abc'', UpdIn_LockToken = Some ''t2'', UpdIn_Name = ''acl'',
                           UpdIn_Rules = [], UpdIn_Scope = ''REGIONAL'', UpdIn_Settings = []\<rparr>,
        None)])"
    by (simp add: run_defs examplePlainRule_no_match)
  show ?thesis
    by (rule conjI [OF a conjI [OF b c]])
qed

text \<open>
  On read, \<open>filterWebACLRules\<close> compares the names of the remote rules with the name of
  the first remote Shield rule only: a second Shield rule with another name is kept in
  the stored rules although it matches the pattern and is not configured.
\<close>

lemma filterWebACLRules_second_shield_rule_kept:
  "MatchString (ToString (Rule_Name (exampleShieldRule ''b'')))
   \<and> filterWebACLRules [exampleShieldRule ''a'', exampleShieldRule ''b''] [] = [exampleShieldRule ''b'']"
proof -
  have "findShieldRule [exampleShieldRule ''a'', exampleShieldRule ''b'']
      = [exampleShieldRule ''a'', exampleShieldRule ''b'']"
    by (simp add: exampleShieldRule_matches)
  moreover have "ToString (Rule_Name (exampleShieldRule ''b'')) \<noteq> ToString (Rule_Name (exampleShieldRule ''a''))"
    by (simp add: exampleShieldRule_def)
  ultimately have "filterWebACLRules [exampleShieldRule ''a'', exampleShieldRule ''b''] [] = [exampleShieldRule ''b'']"
    by (simp add: filterWebACLRules_def)
  then show ?thesis by (simp add: exampleShieldRule_matches)
qed

section \<open>Errors of the other classes\<close>

text \<open>
  Claim C3 as stated fails: \<open>WAFUnavailableEntityException\<close> is neither a not-found
  error nor an optimistic-lock conflict, and the create callback sends the request again
  and returns no diagnostics when the second attempt succeeds.
\<close>

theorem create_retries_unavailable_entity:
  "\<not> ErrCodeEquals (AwsError ''WAFUnavailableEntityException'' ''busy'') WAFNonexistentItemException
   \<and> \<not> ErrCodeEquals (AwsError ''WAFUnavailableEntityException'' ''busy'') WAFOptimisticLockException
   \<and> resourceWebACLCreate
     (scriptedClient [Inl (AwsError ''WAFUnavailableEntityException'' ''busy''),
                      Inr \<lparr>CreOut_Summary_Id = Some (Some ''abc'')\<rparr>]
        [Inr (Some (exampleOutput ''t1'' []))] [] [] (Suc 0))
     (exampleData\<lparr>d_IsNewResource := True\<rparr>) []
   = (Return ([],
        \<lparr>d_Id = ''abc'', d_IsNewResource = True, d_HasChangesExceptTags = True,
         d_name = ''acl'', d_scope = ''REGIONAL'', d_lock_token = ''t1'',
         d_rule = [], d_arn = ''arn'', d_capacity = 1,
         d_application_integration_url = [], d_settings = []\<rparr>),
      [(CallCreateWebACL \<lparr>CreIn_Name = ''acl'', CreIn_Rules = [], CreIn_Scope = ''REGIONAL'',
                           CreIn_Settings = []\<rparr>,
        Some (AwsError ''WAFUnavailableEntityException'' ''busy'')),
       (CallCreateWebACL \<lparr>CreIn_Name = ''acl'', CreIn_Rules = [], CreIn_Scope = ''REGIONAL'',
                           CreIn_Settings = []\<rparr>, None),
       (CallGetWebACL \<lparr>GetIn_Id = ''abc'', GetIn_Name = ''acl'', GetIn_Scope = ''REGIONAL''\<rparr>, None)])"
  by (simp add: run_defs filterWebACLRules_def)

lemma other_error_last:
  assumes "new = F @ [l]" and "\<forall>ev \<in> set F. \<not> Q ev" and "new = es1 @ ev # es2" and "Q ev"
  shows "es2 = [] \<and> ev = l"
proof (cases es2 rule: rev_cases)
  case Nil
  with assms(1,3) show ?thesis by simp
next
  case (snoc ys y)
  with assms(1,3) have "F @ [l] = (es1 @ ev # ys) @ [y]" by simp
  then have "F = es1 @ ev # ys" by (simp only: append1_eq_conv)
  then have "ev \<in> set F" by simp
  with assms(2,4) show ?thesis by blast
qed

lemma surfacesOther_last:
  assumes "surfacesOther d dg new" and "new = es1 @ ev # es2" and "isOtherError d ev"
  shows "es2 = [] \<and> (\<exists>err msg. snd ev = Some err \<and> dg = Some [ErrorDiag (msg @ Text err)])"
proof -
  from assms(1) obtain F l where
    new: "new = F @ [l]" and F: "\<forall>ev \<in> set F. \<not> isOtherError d ev"
    and l: "isOtherError d l \<longrightarrow> (\<exists>err msg. snd l = Some err \<and> dg = Some [ErrorDiag (msg @ Text err)])"
    unfolding surfacesOther_def by blast
  from other_error_last [OF new F assms(2), of ] assms(3) have "es2 = []" "ev = l" by blast+
  with l assms(3) show ?thesis by blast
qed

lemma surfacesOtherI:
  assumes "new = F @ [l]" and "\<forall>ev \<in> set F. \<not> isOtherError d ev"
    and "isOtherError d l \<Longrightarrow> \<exists>err msg. snd l = Some err \<and> dg = Some [ErrorDiag (msg @ Text err)]"
  shows "surfacesOther d dg new"
  unfolding surfacesOther_def using assms by blast

lemma surfacesOther_prepend:
  assumes "surfacesOther d dg new" and "\<forall>ev \<in> set F0. \<not> isOtherError d ev"
  shows "surfacesOther d dg (F0 @ new)"
proof -
  from assms(1) obtain F l where
    new: "new = F @ [l]" and F: "\<forall>ev \<in> set F. \<not> isOtherError d ev"
    and l: "isOtherError d l \<longrightarrow> (\<exists>err msg. snd l = Some err \<and> dg = Some [ErrorDiag (msg @ Text err)])"
    unfolding surfacesOther_def by blast
  show ?thesis
    by (rule surfacesOtherI [of _ "F0 @ F" l]) (use new F l assms(2) in auto)
qed

lemma find_other:
  assumes "findWebACLByThreePartKey conn i n sc h = (r, h')"
  shows "\<exists>g. h' = h @ [(CallGetWebACL \<lparr>GetIn_Id = i, GetIn_Name = n, GetIn_Scope = sc\<rparr>, g)]
     \<and> (isOtherError d (CallGetWebACL \<lparr>GetIn_Id = i, GetIn_Name = n, GetIn_Scope = sc\<rparr>, g)
          \<longrightarrow> (\<exists>err. g = Some err \<and> r = Inl (ApiError err)))
     \<and> ((\<exists>out. r = Inr out) \<longrightarrow> g = None)"
  using assms
  by (auto simp: findWebACLByThreePartKey_def GetWebACL_def Let_def isOtherError_def
      split: sum.splits option.splits if_splits)

lemma retried_not_other:
  "ErrCodeEquals err T \<Longrightarrow> T \<in> set (retriedClasses c) \<Longrightarrow> \<not> isOtherError d (c, Some err)"
  by (auto simp: isOtherError_def ErrCodeEquals_def)

lemma RetryWhenIsA_other:
  assumes f: "\<And>s. \<exists>r. f s = (r, s @ [(c, err_of r)])"
    and run: "RetryWhenIsA WAFUnavailableEntityException conn f h = (r, h')"
    and cls: "WAFUnavailableEntityException \<in> set (retriedClasses c)"
  shows "\<exists>pre. h' = h @ pre @ [(c, err_of r)] \<and> (\<forall>ev \<in> set pre. \<not> isOtherError d ev)"
proof -
  from RetryWhen_trace [OF f] run obtain pre where
    pre: "h' = h @ pre @ [(c, err_of r)]"
      "\<forall>ev \<in> set pre. \<exists>e. ev = (c, Some e) \<and> ErrCodeEquals e WAFUnavailableEntityException"
    unfolding RetryWhenIsA_def by blast
  from pre(2) cls have "\<forall>ev \<in> set pre. \<not> isOtherError d ev"
    by (auto dest: retried_not_other)
  with pre(1) show ?thesis by blast
qed

lemma not_held_not_other: "\<not> heldToken d (fst ev) \<Longrightarrow> \<not> isOtherError d ev"
  by (auto simp: isOtherError_def split: option.splits)

lemma success_not_other: "\<not> isOtherError d (c, None)"
  by (simp add: isOtherError_def)

lemma conflict_not_other: "ErrCodeEquals err WAFOptimisticLockException \<Longrightarrow> \<not> isOtherError d (c, Some err)"
  by (simp add: isOtherError_def)

lemma transient_delete_not_other:
  "isTransient ev \<Longrightarrow> isDeleteCall (fst ev) \<Longrightarrow> \<not> isOtherError d ev"
  by (cases ev; cases "fst ev")
     (auto simp: isTransient_def isOtherError_def ErrCodeEquals_def split: option.splits)


lemma read_surfaces:
  assumes run: "resourceWebACLRead conn d h = (res, h')"
  shows "\<exists>g. h' = h @ [(CallGetWebACL \<lparr>GetIn_Id = d_Id d, GetIn_Name = d_name d,
                                       GetIn_Scope = d_scope d\<rparr>, g)]
     \<and> (isOtherError d0 (CallGetWebACL \<lparr>GetIn_Id = d_Id d, GetIn_Name = d_name d,
                                       GetIn_Scope = d_scope d\<rparr>, g)
          \<longrightarrow> (\<exists>err msg. g = Some err \<and> diagnosticsOf res = Some [ErrorDiag (msg @ Text err)]))"
proof -
  let ?c = "CallGetWebACL \<lparr>GetIn_Id = d_Id d, GetIn_Name = d_name d, GetIn_Scope = d_scope d\<rparr>"
  obtain fr hf where fr: "findWebACLByThreePartKey conn (d_Id d) (d_name d) (d_scope d) h = (fr, hf)"
    by (cases "findWebACLByThreePartKey conn (d_Id d) (d_name d) (d_scope d) h")
  from find_other [OF fr, of d0] obtain g where
    g: "hf = h @ [(?c, g)]"
      "isOtherError d0 (?c, g) \<longrightarrow> (\<exists>err. g = Some err \<and> fr = Inl (ApiError err))" by blast
  from run fr have h': "h' = hf"
    by (auto simp: resourceWebACLRead_def split: sum.splits option.splits if_splits)
  have "isOtherError d0 (?c, g)
      \<longrightarrow> (\<exists>err msg. g = Some err \<and> diagnosticsOf res = Some [ErrorDiag (msg @ Text err)])"
  proof
    assume "isOtherError d0 (?c, g)"
    with g(2) obtain err where err: "g = Some err" "fr = Inl (ApiError err)" by blast
    with run fr have "res = Return (Errorf (''reading WAFv2 WebACL ('' @ d_Id d @ ''): '' @ Text err), d)"
      by (simp add: resourceWebACLRead_def)
    then have "diagnosticsOf res = Some [ErrorDiag ((''reading WAFv2 WebACL ('' @ d_Id d @ ''): '') @ Text err)]"
      by (simp add: Errorf_def)
    with err(1) show "\<exists>err msg. g = Some err \<and> diagnosticsOf res = Some [ErrorDiag (msg @ Text err)]"
      by blast
  qed
  with g(1) h' show ?thesis by blast
qed

lemma create_surfaces:
  assumes run: "resourceWebACLCreate conn d h = (res, h')"
  shows "surfacesOther d (diagnosticsOf res) (drop (length h) h')"
proof -
  let ?in = "\<lparr>CreIn_Name = d_name d, CreIn_Rules = d_rule d, CreIn_Scope = d_scope d,
              CreIn_Settings = d_settings d\<rparr>"
  obtain r h1 where
    w: "RetryWhenIsA WAFUnavailableEntityException conn (CreateWebACL conn ?in) h = (r, h1)"
    by (cases "RetryWhenIsA WAFUnavailableEntityException conn (CreateWebACL conn ?in) h")
  from RetryWhenIsA_other [OF CreateWebACL_step w, of d] obtain pre where
    pre: "h1 = h @ pre @ [(CallCreateWebACL ?in, err_of r)]" "\<forall>ev \<in> set pre. \<not> isOtherError d ev"
    by auto
  show ?thesis
  proof (cases r)
    case (Inl err)
    with run w have "h' = h1"
      and "res = Return (Errorf (''creating WAFv2 WebACL ('' @ d_name d @ ''): '' @ Text err), d)"
      by (simp_all add: resourceWebACLCreate_def Let_def)
    then have "drop (length h) h' = pre @ [(CallCreateWebACL ?in, Some err)]"
      and "diagnosticsOf res = Some [ErrorDiag ((''creating WAFv2 WebACL ('' @ d_name d @ ''): '') @ Text err)]"
      using pre(1) Inl by (simp_all add: Errorf_def)
    with pre(2) show ?thesis
      by (intro surfacesOtherI [of _ pre "(CallCreateWebACL ?in, Some err)"]) auto
  next
    case (Inr outp)
    show ?thesis
    proof (cases "CreOut_Summary_Id outp")
      case None
      with run w Inr have "h' = h1" by (simp add: resourceWebACLCreate_def Let_def)
      with pre(1) Inr have "drop (length h) h' = pre @ [(CallCreateWebACL ?in, None)]" by simp
      with pre(2) show ?thesis
        by (intro surfacesOtherI [of _ pre "(CallCreateWebACL ?in, None)"])
           (auto simp: success_not_other)
    next
      case (Some i)
      let ?d = "d\<lparr>d_Id := ToString i\<rparr>"
      from run w Inr Some have "resourceWebACLRead conn ?d h1 = (res, h')"
        by (simp add: resourceWebACLCreate_def Let_def)
      from read_surfaces [OF this, of d] obtain g where
        g: "h' = h1 @ [(CallGetWebACL \<lparr>GetIn_Id = d_Id ?d, GetIn_Name = d_name ?d,
                                         GetIn_Scope = d_scope ?d\<rparr>, g)]"
          "isOtherError d (CallGetWebACL \<lparr>GetIn_Id = d_Id ?d, GetIn_Name = d_name ?d,
                                       GetIn_Scope = d_scope ?d\<rparr>, g)
          \<longrightarrow> (\<exists>err msg. g = Some err \<and> diagnosticsOf res = Some [ErrorDiag (msg @ Text err)])"
        by blast
      let ?l = "(CallGetWebACL \<lparr>GetIn_Id = d_Id ?d, GetIn_Name = d_name ?d,
                                         GetIn_Scope = d_scope ?d\<rparr>, g)"
      have "drop (length h) h' = (pre @ [(CallCreateWebACL ?in, None)]) @ [?l]"
        using g(1) pre(1) Inr by simp
      moreover have "\<forall>ev \<in> set (pre @ [(CallCreateWebACL ?in, None)]). \<not> isOtherError d ev"
        using pre(2) by (auto simp: success_not_other)
      ultimately show ?thesis
        using g(2) by (intro surfacesOtherI [of _ "pre @ [(CallCreateWebACL ?in, None)]" ?l]) auto
    qed
  qed
qed


lemma refreshed_token_not_held:
  "ToString tok \<noteq> held \<Longrightarrow> tok \<noteq> Some held"
  by (cases tok) auto

lemma retryUpdate_surfaces:
  assumes run: "retryResourceWebACLUpdateOptmisticLockFailure conn i n sc (d_lock_token d) input h
      = (diags, h')"
  shows "surfacesOther d (Some diags) (drop (length h) h')"
proof -
  let ?g = "CallGetWebACL \<lparr>GetIn_Id = i, GetIn_Name = n, GetIn_Scope = sc\<rparr>"
  obtain fr h1 where fr: "findWebACLByThreePartKey conn i n sc h = (fr, h1)"
    by (cases "findWebACLByThreePartKey conn i n sc h")
  from find_other [OF fr, of d] obtain g where
    g: "h1 = h @ [(?g, g)]"
      "isOtherError d (?g, g) \<longrightarrow> (\<exists>err. g = Some err \<and> fr = Inl (ApiError err))"
      "(\<exists>out. fr = Inr out) \<longrightarrow> g = None" by blast
  show ?thesis
  proof (cases fr)
    case (Inl e)
    with run fr have h': "h' = h1" and dg: "diags = Errorf (''refreshing WAFv2 WebACL ('' @ i @
          ''), attempting to refresh WAFv2 WebACL to retrieve new LockToken: '' @ ErrorText e)"
      by (simp_all add: retryResourceWebACLUpdateOptmisticLockFailure_def)
    have "isOtherError d (?g, g) \<Longrightarrow>
        \<exists>err msg. snd (?g, g) = Some err \<and> Some diags = Some [ErrorDiag (msg @ Text err)]"
    proof -
      assume "isOtherError d (?g, g)"
      with g(2) Inl obtain err where "g = Some err" "e = ApiError err" by auto
      with dg have "snd (?g, g) = Some err \<and> Some diags = Some [ErrorDiag ((''refreshing WAFv2 WebACL ('' @ i @
          ''), attempting to refresh WAFv2 WebACL to retrieve new LockToken: '') @ Text err)]"
        by (simp add: Errorf_def)
      then show ?thesis by blast
    qed
    moreover have "drop (length h) h' = [] @ [(?g, g)]" using h' g(1) by simp
    ultimately show ?thesis
      by (intro surfacesOtherI [of _ "[]" "(?g, g)"]) auto
  next
    case (Inr out)
    with g(3) have gN: "g = None" by blast
    show ?thesis
    proof (cases "ToString (Out_LockToken out) = d_lock_token d")
      case True
      with run fr Inr have "h' = h1"
        by (simp add: retryResourceWebACLUpdateOptmisticLockFailure_def)
      with g(1) gN have "drop (length h) h' = [] @ [(?g, None)]" by simp
      then show ?thesis
        by (intro surfacesOtherI [of _ "[]" "(?g, None)"]) (auto simp: success_not_other)
    next
      case False
      let ?in2 = "input\<lparr>UpdIn_LockToken := Out_LockToken out\<rparr>"
      obtain r :: "aws_error + unit" and h2 where
        w: "RetryWhenIsOneOf2 WAFAssociatedItemException WAFUnavailableEntityException conn
              (UpdateWebACL conn ?in2) h1 = (r, h2)"
        by (cases "RetryWhenIsOneOf2 WAFAssociatedItemException WAFUnavailableEntityException conn
              (UpdateWebACL conn ?in2) h1")
      from RetryWhenIsOneOf2_trace [OF UpdateWebACL_step w] obtain pre where
        pre: "h2 = h1 @ pre @ [(CallUpdateWebACL ?in2, err_of r)]"
          "\<forall>ev \<in> set pre. fst ev = CallUpdateWebACL ?in2 \<and> isTransient ev" by blast
      from run fr Inr False w have h': "h' = h2"
        by (auto simp: retryResourceWebACLUpdateOptmisticLockFailure_def split: sum.splits if_splits)
      have nh: "\<not> heldToken d (CallUpdateWebACL ?in2)"
        using refreshed_token_not_held [OF False] by simp
      have "drop (length h) h' = ((?g, None) # pre) @ [(CallUpdateWebACL ?in2, err_of r)]"
        using h' pre(1) g(1) gN by simp
      moreover have "\<forall>ev \<in> set ((?g, None) # pre). \<not> isOtherError d ev"
      proof
        fix ev assume "ev \<in> set ((?g, None) # pre)"
        then consider "ev = (?g, None)" | "ev \<in> set pre" by auto
        then show "\<not> isOtherError d ev"
        proof cases
          case 1
          then show ?thesis by (simp add: success_not_other)
        next
          case 2
          with pre(2) have "fst ev = CallUpdateWebACL ?in2" by blast
          with nh have "\<not> heldToken d (fst ev)" by simp
          then show ?thesis by (rule not_held_not_other)
        qed
      qed
      moreover have "\<not> isOtherError d (CallUpdateWebACL ?in2, err_of r)"
        using nh by (intro not_held_not_other) simp
      ultimately show ?thesis
        by (intro surfacesOtherI [of _ "(?g, None) # pre" "(CallUpdateWebACL ?in2, err_of r)"]) auto
    qed
  qed
qed

lemma retryDelete_surfaces:
  assumes run: "retryResourceWebACLDeleteOptmisticLockFailure conn i n sc (d_lock_token d) h
      = (diags, h')"
  shows "surfacesOther d (Some diags) (drop (length h) h')"
proof -
  let ?g = "CallGetWebACL \<lparr>GetIn_Id = i, GetIn_Name = n, GetIn_Scope = sc\<rparr>"
  obtain fr h1 where fr: "findWebACLByThreePartKey conn i n sc h = (fr, h1)"
    by (cases "findWebACLByThreePartKey conn i n sc h")
  from find_other [OF fr, of d] obtain g where
    g: "h1 = h @ [(?g, g)]"
      "isOtherError d (?g, g) \<longrightarrow> (\<exists>err. g = Some err \<and> fr = Inl (ApiError err))"
      "(\<exists>out. fr = Inr out) \<longrightarrow> g = None" by blast
  show ?thesis
  proof (cases fr)
    case (Inl e)
    with run fr have h': "h' = h1" and dg: "diags = Errorf (''refreshing WAFv2 WebACL ('' @ i @
          ''), attempting to refresh WAFv2 WebACL to retrieve new LockToken: '' @ ErrorText e)"
      by (simp_all add: retryResourceWebACLDeleteOptmisticLockFailure_def)
    have "isOtherError d (?g, g) \<Longrightarrow>
        \<exists>err msg. snd (?g, g) = Some err \<and> Some diags = Some [ErrorDiag (msg @ Text err)]"
    proof -
      assume "isOtherError d (?g, g)"
      with g(2) Inl obtain err where "g = Some err" "e = ApiError err" by auto
      with dg have "snd (?g, g) = Some err \<and> Some diags = Some [ErrorDiag ((''refreshing WAFv2 WebACL ('' @ i @
          ''), attempting to refresh WAFv2 WebACL to retrieve new LockToken: '') @ Text err)]"
        by (simp add: Errorf_def)
      then show ?thesis by blast
    qed
    moreover have "drop (length h) h' = [] @ [(?g, g)]" using h' g(1) by simp
    ultimately show ?thesis
      by (intro surfacesOtherI [of _ "[]" "(?g, g)"]) auto
  next
    case (Inr out)
    with g(3) have gN: "g = None" by blast
    show ?thesis
    proof (cases "ToString (Out_LockToken out) = d_lock_token d")
      case True
      with run fr Inr have "h' = h1"
        by (simp add: retryResourceWebACLDeleteOptmisticLockFailure_def)
      with g(1) gN have "drop (length h) h' = [] @ [(?g, None)]" by simp
      then show ?thesis
        by (intro surfacesOtherI [of _ "[]" "(?g, None)"]) (auto simp: success_not_other)
    next
      case False
      let ?in2 = "\<lparr>DelIn_Id = i, DelIn_LockToken = Out_LockToken out, DelIn_Name = n, DelIn_Scope = sc\<rparr>"
      obtain r :: "aws_error + unit" and h2 where
        w: "RetryWhenIsOneOf2 WAFAssociatedItemException WAFUnavailableEntityException conn
              (DeleteWebACL conn ?in2) h1 = (r, h2)"
        by (cases "RetryWhenIsOneOf2 WAFAssociatedItemException WAFUnavailableEntityException conn
              (DeleteWebACL conn ?in2) h1")
      from RetryWhenIsOneOf2_trace [OF DeleteWebACL_step w] obtain pre where
        pre: "h2 = h1 @ pre @ [(CallDeleteWebACL ?in2, err_of r)]"
          "\<forall>ev \<in> set pre. fst ev = CallDeleteWebACL ?in2 \<and> isTransient ev" by blast
      from run fr Inr False w have h': "h' = h2"
        by (auto simp: retryResourceWebACLDeleteOptmisticLockFailure_def Let_def
            split: sum.splits if_splits)
      have nh: "\<not> heldToken d (CallDeleteWebACL ?in2)"
        using refreshed_token_not_held [OF False] by simp
      have "drop (length h) h' = ((?g, None) # pre) @ [(CallDeleteWebACL ?in2, err_of r)]"
        using h' pre(1) g(1) gN by simp
      moreover have "\<forall>ev \<in> set ((?g, None) # pre). \<not> isOtherError d ev"
      proof
        fix ev assume "ev \<in> set ((?g, None) # pre)"
        then consider "ev = (?g, None)" | "ev \<in> set pre" by auto
        then show "\<not> isOtherError d ev"
        proof cases
          case 1
          then show ?thesis by (simp add: success_not_other)
        next
          case 2
          with pre(2) have "fst ev = CallDeleteWebACL ?in2" by blast
          with nh have "\<not> heldToken d (fst ev)" by simp
          then show ?thesis by (rule not_held_not_other)
        qed
      qed
      moreover have "\<not> isOtherError d (CallDeleteWebACL ?in2, err_of r)"
        using nh by (intro not_held_not_other) simp
      ultimately show ?thesis
        by (intro surfacesOtherI [of _ "(?g, None) # pre" "(CallDeleteWebACL ?in2, err_of r)"]) auto
    qed
  qed
qed


lemma retryUpdate_extends:
  assumes run: "retryResourceWebACLUpdateOptmisticLockFailure conn i n sc tok input h = (diags, h')"
  shows "\<exists>new. h' = h @ new"
proof -
  obtain fr h1 where fr: "findWebACLByThreePartKey conn i n sc h = (fr, h1)"
    by (cases "findWebACLByThreePartKey conn i n sc h")
  from find_step [OF fr] obtain g where
    h1: "h1 = h @ [(CallGetWebACL \<lparr>GetIn_Id = i, GetIn_Name = n, GetIn_Scope = sc\<rparr>, g)]" by blast
  show ?thesis
  proof (cases "\<exists>out. fr = Inr out \<and> ToString (Out_LockToken out) \<noteq> tok")
    case False
    with run fr have "h' = h1"
      by (auto simp: retryResourceWebACLUpdateOptmisticLockFailure_def split: sum.splits if_splits)
    with h1 show ?thesis by simp
  next
    case True
    then obtain out where out: "fr = Inr out" "ToString (Out_LockToken out) \<noteq> tok" by blast
    let ?in2 = "input\<lparr>UpdIn_LockToken := Out_LockToken out\<rparr>"
    obtain r :: "aws_error + unit" and h2 where
      w: "RetryWhenIsOneOf2 WAFAssociatedItemException WAFUnavailableEntityException conn
            (UpdateWebACL conn ?in2) h1 = (r, h2)"
      by (cases "RetryWhenIsOneOf2 WAFAssociatedItemException WAFUnavailableEntityException conn
            (UpdateWebACL conn ?in2) h1")
    from RetryWhenIsOneOf2_trace [OF UpdateWebACL_step w] obtain pre where
      pre: "h2 = h1 @ pre @ [(CallUpdateWebACL ?in2, err_of r)]" by blast
    from run fr out w have "h' = h2"
      by (auto simp: retryResourceWebACLUpdateOptmisticLockFailure_def split: sum.splits if_splits)
    with pre h1 show ?thesis by simp
  qed
qed

lemma retryDelete_extends:
  assumes run: "retryResourceWebACLDeleteOptmisticLockFailure conn i n sc tok h = (diags, h')"
  shows "\<exists>new. h' = h @ new"
  using run by (cases rule: retryDelete_cases) auto

lemma transient_deletes_not_other:
  assumes "\<forall>ev \<in> set pre. fst ev = CallDeleteWebACL i \<and> isTransient ev"
  shows "\<forall>ev \<in> set pre. \<not> isOtherError d ev"
proof
  fix ev assume "ev \<in> set pre"
  with assms have "fst ev = CallDeleteWebACL i" and t: "isTransient ev" by blast+
  then have "isDeleteCall (fst ev)" by simp
  with t show "\<not> isOtherError d ev" by (rule transient_delete_not_other)
qed

lemma delete_surfaces:
  assumes run: "resourceWebACLDelete conn d h = (diags, h')"
  shows "surfacesOther d (Some diags) (drop (length h) h')"
proof -
  let ?c1 = "CallDeleteWebACL \<lparr>DelIn_Id = d_Id d, DelIn_LockToken = Some (d_lock_token d),
              DelIn_Name = d_name d, DelIn_Scope = d_scope d\<rparr>"
  from run show ?thesis
  proof (cases rule: resourceWebACLDelete_cases)
    case (no_conflict pre r)
    have new: "drop (length h) h' = pre @ [(?c1, err_of r)]"
      using no_conflict(2) by simp
    have F: "\<forall>ev \<in> set pre. \<not> isOtherError d ev"
      using no_conflict(3) by (rule transient_deletes_not_other)
    have "isOtherError d (?c1, err_of r) \<Longrightarrow>
        \<exists>err msg. snd (?c1, err_of r) = Some err \<and> Some diags = Some [ErrorDiag (msg @ Text err)]"
    proof -
      assume o: "isOtherError d (?c1, err_of r)"
      then obtain err where err: "r = Inl err" "\<not> ErrCodeEquals err WAFNonexistentItemException"
        by (cases r) (auto simp: isOtherError_def)
      with no_conflict(5) have "Some diags = Some [ErrorDiag ((''deleting WAFv2 WebACL ('' @ d_Id d @ ''): '') @ Text err)]"
        by (simp add: Errorf_def)
      with err(1) show ?thesis by auto
    qed
    with new F show ?thesis
      by (intro surfacesOtherI [of _ pre "(?c1, err_of r)"]) auto
  next
    case (conflict pre err h1)
    from retryDelete_extends [OF conflict(5)] obtain new2 where new2: "h' = h1 @ new2" by blast
    from retryDelete_surfaces [OF conflict(5)] new2
    have s2: "surfacesOther d (Some diags) new2" by simp
    have "\<forall>ev \<in> set pre. \<not> isOtherError d ev"
      using conflict(3) by (rule transient_deletes_not_other)
    moreover have "\<not> isOtherError d (?c1, Some err)"
      using conflict(4) by (rule conflict_not_other)
    ultimately have F: "\<forall>ev \<in> set (pre @ [(?c1, Some err)]). \<not> isOtherError d ev"
      by simp
    have "drop (length h) h' = (pre @ [(?c1, Some err)]) @ new2"
      using new2 conflict(2) by simp
    with surfacesOther_prepend [OF s2 F] show ?thesis by simp
  qed
qed


lemma send_surfaces:
  assumes run: "resourceWebACLUpdate_send conn d rules h = (res, h')"
  shows "\<exists>new. h' = h @ new \<and> surfacesOther d (diagnosticsOf res) new"
proof -
  let ?in1 = "\<lparr>UpdIn_Id = d_Id d, UpdIn_LockToken = Some (d_lock_token d), UpdIn_Name = d_name d,
                UpdIn_Rules = rules, UpdIn_Scope = d_scope d, UpdIn_Settings = d_settings d\<rparr>"
  let ?l1 = "\<lambda>r :: aws_error + unit. (CallUpdateWebACL ?in1, err_of r)"
  obtain r :: "aws_error + unit" and h1 where
    w: "RetryWhenIsA WAFUnavailableEntityException conn (UpdateWebACL conn ?in1) h = (r, h1)"
    by (cases "RetryWhenIsA WAFUnavailableEntityException conn (UpdateWebACL conn ?in1) h")
  from RetryWhenIsA_other [OF UpdateWebACL_step w, of d] obtain pre where
    pre: "h1 = h @ pre @ [?l1 r]" "\<forall>ev \<in> set pre. \<not> isOtherError d ev"
    by auto
  show ?thesis
  proof (cases r)
    case (Inr v)
    with run w have "resourceWebACLRead conn d h1 = (res, h')"
      by (simp add: resourceWebACLUpdate_send_def Let_def)
    from read_surfaces [OF this, of d] obtain g where
      g: "h' = h1 @ [(CallGetWebACL \<lparr>GetIn_Id = d_Id d, GetIn_Name = d_name d,
                                       GetIn_Scope = d_scope d\<rparr>, g)]"
        "isOtherError d (CallGetWebACL \<lparr>GetIn_Id = d_Id d, GetIn_Name = d_name d,
                                       GetIn_Scope = d_scope d\<rparr>, g)
          \<longrightarrow> (\<exists>err msg. g = Some err \<and> diagnosticsOf res = Some [ErrorDiag (msg @ Text err)])"
      by blast
    let ?l = "(CallGetWebACL \<lparr>GetIn_Id = d_Id d, GetIn_Name = d_name d, GetIn_Scope = d_scope d\<rparr>, g)"
    have "\<not> isOtherError d (?l1 r)" using Inr by (simp add: success_not_other)
    with pre(2) have F: "\<forall>ev \<in> set (pre @ [?l1 r]). \<not> isOtherError d ev" by simp
    have "surfacesOther d (diagnosticsOf res) ((pre @ [?l1 r]) @ [?l])"
      using g(2) F by (intro surfacesOtherI [of _ "pre @ [?l1 r]" ?l]) auto
    moreover have "h' = h @ (pre @ [?l1 r]) @ [?l]" using g(1) pre(1) by simp
    ultimately show ?thesis by blast
  next
    case (Inl err)
    show ?thesis
    proof (cases "ErrCodeEquals err WAFOptimisticLockException")
      case True
      obtain diags h2 where
        rt: "retryResourceWebACLUpdateOptmisticLockFailure conn (d_Id d) (d_name d) (d_scope d)
               (d_lock_token d) ?in1 h1 = (diags, h2)"
        by (cases "retryResourceWebACLUpdateOptmisticLockFailure conn (d_Id d) (d_name d) (d_scope d)
               (d_lock_token d) ?in1 h1")
      with run w Inl True have res: "res = Return (diags, d)" and h': "h' = h2"
        by (simp_all add: resourceWebACLUpdate_send_def Let_def)
      from retryUpdate_extends [OF rt] obtain new2 where new2: "h2 = h1 @ new2" by blast
      from retryUpdate_surfaces [OF rt] new2 have s2: "surfacesOther d (Some diags) new2" by simp
      have "\<not> isOtherError d (?l1 r)" using Inl True by (simp add: conflict_not_other)
      with pre(2) have F: "\<forall>ev \<in> set (pre @ [?l1 r]). \<not> isOtherError d ev" by simp
      from surfacesOther_prepend [OF s2 F] res
      have "surfacesOther d (diagnosticsOf res) ((pre @ [?l1 r]) @ new2)" by simp
      moreover have "h' = h @ (pre @ [?l1 r]) @ new2" using h' new2 pre(1) by simp
      ultimately show ?thesis by blast
    next
      case False
      with run w Inl have h': "h' = h1"
        and res: "res = Return (Errorf (''updating WAFv2 WebACL ('' @ d_Id d @ ''): '' @ Text err), d)"
        by (simp_all add: resourceWebACLUpdate_send_def Let_def)
      have "\<exists>e msg. snd (?l1 r) = Some e \<and> diagnosticsOf res = Some [ErrorDiag (msg @ Text e)]"
        using res Inl
        by (intro exI [of _ err] exI [of _ "''updating WAFv2 WebACL ('' @ d_Id d @ ''): ''"])
           (simp add: Errorf_def)
      then have "surfacesOther d (diagnosticsOf res) (pre @ [?l1 r])"
        using pre(2) by (intro surfacesOtherI [of _ pre "?l1 r"]) auto
      with h' pre(1) show ?thesis by blast
    qed
  qed
qed

lemma rules_surfaces:
  assumes run: "resourceWebACLUpdate_rules conn d h = (rr, h0)"
  shows "(h0 = h \<and> (\<exists>rules. rr = Return (Inr rules)))
     \<or> (\<exists>g. h0 = h @ [(CallGetWebACL \<lparr>GetIn_Id = d_Id d, GetIn_Name = d_name d,
                                          GetIn_Scope = d_scope d\<rparr>, g)]
          \<and> (case rr of
                Panic \<Rightarrow> g = None
              | Return (Inr rules) \<Rightarrow> g = None
              | Return (Inl diags) \<Rightarrow>
                  (isOtherError d (CallGetWebACL \<lparr>GetIn_Id = d_Id d, GetIn_Name = d_name d,
                                          GetIn_Scope = d_scope d\<rparr>, g)
                   \<longrightarrow> (\<exists>err msg. g = Some err \<and> diags = [ErrorDiag (msg @ Text err)]))))"
proof (cases "findShieldRule (d_rule d) = []")
  case False
  with run show ?thesis by (auto simp: resourceWebACLUpdate_rules_def)
next
  case True
  let ?c = "CallGetWebACL \<lparr>GetIn_Id = d_Id d, GetIn_Name = d_name d, GetIn_Scope = d_scope d\<rparr>"
  obtain fr hf where fr: "findWebACLByThreePartKey conn (d_Id d) (d_name d) (d_scope d) h = (fr, hf)"
    by (cases "findWebACLByThreePartKey conn (d_Id d) (d_name d) (d_scope d) h")
  from find_other [OF fr, of d] obtain g where
    g: "hf = h @ [(?c, g)]"
      "isOtherError d (?c, g) \<longrightarrow> (\<exists>err. g = Some err \<and> fr = Inl (ApiError err))"
      "(\<exists>out. fr = Inr out) \<longrightarrow> g = None" by blast
  from run fr True have h0: "h0 = hf"
    by (auto simp: resourceWebACLUpdate_rules_def Let_def split: sum.splits option.splits)
  have "case rr of
          Panic \<Rightarrow> g = None
        | Return (Inr rules) \<Rightarrow> g = None
        | Return (Inl diags) \<Rightarrow>
            (isOtherError d (?c, g) \<longrightarrow> (\<exists>err msg. g = Some err \<and> diags = [ErrorDiag (msg @ Text err)]))"
  proof (cases fr)
    case (Inr out)
    with g(3) have "g = None" by blast
    with run fr True Inr show ?thesis
      by (auto simp: resourceWebACLUpdate_rules_def Let_def split: option.splits)
  next
    case (Inl e)
    with run fr True have rr: "rr = Return (Inl (Errorf (''reading WAFv2 WebACL ('' @ d_Id d @ ''): '' @ ErrorText e)))"
      by (simp add: resourceWebACLUpdate_rules_def Let_def)
    have "isOtherError d (?c, g) \<longrightarrow>
       (\<exists>err msg. g = Some err \<and>
          Errorf (''reading WAFv2 WebACL ('' @ d_Id d @ ''): '' @ ErrorText e) = [ErrorDiag (msg @ Text err)])"
    proof
      assume "isOtherError d (?c, g)"
      with g(2) Inl obtain err where "g = Some err" "e = ApiError err" by auto
      then show "\<exists>err msg. g = Some err \<and>
          Errorf (''reading WAFv2 WebACL ('' @ d_Id d @ ''): '' @ ErrorText e) = [ErrorDiag (msg @ Text err)]"
        by (intro exI [of _ err] exI [of _ "''reading WAFv2 WebACL ('' @ d_Id d @ ''): ''"])
           (simp add: Errorf_def)
    qed
    with rr show ?thesis by simp
  qed
  with g(1) h0 show ?thesis by blast
qed


lemma update_surfaces:
  assumes run: "resourceWebACLUpdate conn d h = (res, h')"
  shows "surfacesOther d (diagnosticsOf res) (drop (length h) h')"
proof (cases "d_HasChangesExceptTags d")
  case False
  with run have "resourceWebACLRead conn d h = (res, h')"
    by (simp add: resourceWebACLUpdate_def)
  from read_surfaces [OF this, of d] obtain g where
    g: "h' = h @ [(CallGetWebACL \<lparr>GetIn_Id = d_Id d, GetIn_Name = d_name d,
                                     GetIn_Scope = d_scope d\<rparr>, g)]"
      "isOtherError d (CallGetWebACL \<lparr>GetIn_Id = d_Id d, GetIn_Name = d_name d,
                                     GetIn_Scope = d_scope d\<rparr>, g)
        \<longrightarrow> (\<exists>err msg. g = Some err \<and> diagnosticsOf res = Some [ErrorDiag (msg @ Text err)])"
    by blast
  let ?l = "(CallGetWebACL \<lparr>GetIn_Id = d_Id d, GetIn_Name = d_name d, GetIn_Scope = d_scope d\<rparr>, g)"
  have "drop (length h) h' = [] @ [?l]" using g(1) by simp
  with g(2) show ?thesis
    by (intro surfacesOtherI [of _ "[]" ?l]) auto
next
  case True
  let ?c = "CallGetWebACL \<lparr>GetIn_Id = d_Id d, GetIn_Name = d_name d, GetIn_Scope = d_scope d\<rparr>"
  obtain rr h0 where rr: "resourceWebACLUpdate_rules conn d h = (rr, h0)"
    by (cases "resourceWebACLUpdate_rules conn d h")
  from rules_surfaces [OF rr] consider
    (none) rules where "h0 = h" "rr = Return (Inr rules)"
  | (get) g where "h0 = h @ [(?c, g)]"
      "case rr of
         Panic \<Rightarrow> g = None
       | Return (Inr rules) \<Rightarrow> g = None
       | Return (Inl diags) \<Rightarrow>
           (isOtherError d (?c, g) \<longrightarrow> (\<exists>err msg. g = Some err \<and> diags = [ErrorDiag (msg @ Text err)]))"
    by blast
  then show ?thesis
  proof cases
    case (none rules)
    with run True rr have "resourceWebACLUpdate_send conn d rules h = (res, h')"
      by (simp add: resourceWebACLUpdate_def)
    from send_surfaces [OF this] show ?thesis by auto
  next
    case (get g)
    show ?thesis
    proof (cases rr)
      case Panic
      with run True rr have "res = Panic" "h' = h0" by (simp_all add: resourceWebACLUpdate_def)
      moreover from get(2) Panic have "g = None" by simp
      ultimately have "drop (length h) h' = [] @ [(?c, None)]" using get(1) by simp
      then show ?thesis
        by (intro surfacesOtherI [of _ "[]" "(?c, None)"]) (auto simp: success_not_other)
    next
      case (Return x)
      show ?thesis
      proof (cases x)
        case (Inl diags)
        with run True rr Return have res: "res = Return (diags, d)" and h': "h' = h0"
          by (simp_all add: resourceWebACLUpdate_def)
        from get(2) Return Inl have
          "isOtherError d (?c, g) \<longrightarrow> (\<exists>err msg. g = Some err \<and> diags = [ErrorDiag (msg @ Text err)])"
          by simp
        with res have "isOtherError d (?c, g) \<Longrightarrow>
            \<exists>err msg. snd (?c, g) = Some err \<and> diagnosticsOf res = Some [ErrorDiag (msg @ Text err)]"
          by auto
        moreover have "drop (length h) h' = [] @ [(?c, g)]" using h' get(1) by simp
        ultimately show ?thesis
          by (intro surfacesOtherI [of _ "[]" "(?c, g)"]) auto
      next
        case (Inr rules)
        with run True rr Return have "resourceWebACLUpdate_send conn d rules h0 = (res, h')"
          by (simp add: resourceWebACLUpdate_def)
        from send_surfaces [OF this] obtain new where
          new: "h' = h0 @ new" "surfacesOther d (diagnosticsOf res) new" by blast
        from get(2) Return Inr have "g = None" by simp
        then have F: "\<forall>ev \<in> set [(?c, g)]. \<not> isOtherError d ev" by (simp add: success_not_other)
        have "drop (length h) h' = [(?c, g)] @ new" using new(1) get(1) by simp
        with surfacesOther_prepend [OF new(2) F] show ?thesis by simp
      qed
    qed
  qed
qed


text \<open>
  Claim C3, amended. In a run of a WAFv2 web ACL callback, a request that carries the held
  lock token and is answered with an error which is neither not-found, nor an
  optimistic-lock conflict, nor of a class given to the retry helper for that request is
  the last request of the run, and the callback returns one error diagnostic whose message
  ends with the text of that error. The update or delete request sent again with a
  refreshed lock token after a conflict is left out. In the Transfer certificate and
  DeviceFarm upload callbacks, every error of a create, update or delete request other
  than not-found on delete, and every error a finder returns other than not-found, is
  returned as the one error diagnostic, its message ending with the text of the error.
\<close>

theorem other_errors_surfaced:
  "(\<forall>res h' es1 ev es2.
      resourceWebACLCreate conn d h = (res, h') \<and> drop (length h) h' = es1 @ ev # es2
      \<and> isOtherError d ev
      \<longrightarrow> es2 = [] \<and> (\<exists>err msg. snd ev = Some err
                          \<and> diagnosticsOf res = Some [ErrorDiag (msg @ Text err)]))
   \<and> (\<forall>res h' es1 ev es2.
      resourceWebACLRead conn d h = (res, h') \<and> drop (length h) h' = es1 @ ev # es2
      \<and> isOtherError d ev
      \<longrightarrow> es2 = [] \<and> (\<exists>err msg. snd ev = Some err
                          \<and> diagnosticsOf res = Some [ErrorDiag (msg @ Text err)]))
   \<and> (\<forall>res h' es1 ev es2.
      resourceWebACLUpdate conn d h = (res, h') \<and> drop (length h) h' = es1 @ ev # es2
      \<and> isOtherError d ev
      \<longrightarrow> es2 = [] \<and> (\<exists>err msg. snd ev = Some err
                          \<and> diagnosticsOf res = Some [ErrorDiag (msg @ Text err)]))
   \<and> (\<forall>diags h' es1 ev es2.
      resourceWebACLDelete conn d h = (diags, h') \<and> drop (length h) h' = es1 @ ev # es2
      \<and> isOtherError d ev
      \<longrightarrow> es2 = [] \<and> (\<exists>err msg. snd ev = Some err \<and> diags = [ErrorDiag (msg @ Text err)]))
   \<and> (\<forall>err. ImportCertificate_response tconn \<lparr>ImpIn_Description = GetOk (cd_description cd),
             ImpIn_Attributes = cd_attributes cd\<rparr> = Inl err
      \<longrightarrow> resourceCertificateCreate tconn cd =
           ([ErrorDiag (''importing Transfer Certificate: '' @ Text err)], cd))
   \<and> (\<forall>certificateId err.
        ImportCertificate_response tconn \<lparr>ImpIn_Description = GetOk (cd_description cd),
             ImpIn_Attributes = cd_attributes cd\<rparr> = Inr certificateId
        \<and> FindCertificateByID_result tconn (ToString certificateId) = Inl (ApiError err)
      \<longrightarrow> resourceCertificateCreate tconn cd =
           ([ErrorDiag (''reading Transfer Certificate ('' @ ToString certificateId @ ''): '' @ Text err)],
            cd\<lparr>cd_Id := ToString certificateId\<rparr>))
   \<and> (\<forall>err. FindCertificateByID_result tconn (cd_Id cd) = Inl (ApiError err)
      \<longrightarrow> resourceCertificateRead tconn cd =
           ([ErrorDiag (''reading Transfer Certificate ('' @ cd_Id cd @ ''): '' @ Text err)], cd))
   \<and> (\<forall>err. cd_HasChange_description cd
        \<and> UpdateCertificate_response tconn (cd_Id cd) (cd_description cd) = Inl err
      \<longrightarrow> resourceCertificateUpdate tconn cd =
           ([ErrorDiag (''updating Transfer Certificate ('' @ cd_Id cd @ ''): '' @ Text err)], cd))
   \<and> (\<forall>err. (\<not> cd_HasChange_description cd
            \<or> UpdateCertificate_response tconn (cd_Id cd) (cd_description cd) = Inr ())
        \<and> FindCertificateByID_result tconn (cd_Id cd) = Inl (ApiError err)
      \<longrightarrow> resourceCertificateUpdate tconn cd =
           ([ErrorDiag (''reading Transfer Certificate ('' @ cd_Id cd @ ''): '' @ Text err)], cd))
   \<and> (\<forall>err. DeleteCertificate_response tconn (cd_Id cd) = Inl err
        \<and> \<not> ErrCodeEquals err transfer_ErrCodeResourceNotFoundException
      \<longrightarrow> resourceCertificateDelete tconn cd =
           [ErrorDiag (''deleting Transfer Certificate ('' @ cd_Id cd @ ''): '' @ Text err)])
   \<and> (\<forall>err. CreateUpload_response dconn \<lparr>CuIn_Name = ud_name ud, CuIn_ProjectArn = ud_project_arn ud,
             CuIn_Type = ud_type ud, CuIn_ContentType = GetOk (ud_content_type ud)\<rparr> = Inl err
      \<longrightarrow> resourceUploadCreate dconn ud =
           Return ([ErrorDiag (''creating DeviceFarm Upload: '' @ Text err)], ud))
   \<and> (\<forall>upload err.
        CreateUpload_response dconn \<lparr>CuIn_Name = ud_name ud, CuIn_ProjectArn = ud_project_arn ud,
             CuIn_Type = ud_type ud, CuIn_ContentType = GetOk (ud_content_type ud)\<rparr> = Inr (Some upload)
        \<and> FindUploadByARN_result dconn (ToString (Upload_Arn upload)) = Inl (ApiError err)
      \<longrightarrow> resourceUploadCreate dconn ud =
           Return ([ErrorDiag (''reading DeviceFarm Upload ('' @ ToString (Upload_Arn upload) @ ''): ''
                      @ Text err)],
                   ud\<lparr>ud_Id := ToString (Upload_Arn upload)\<rparr>))
   \<and> (\<forall>err. FindUploadByARN_result dconn (ud_Id ud) = Inl (ApiError err)
      \<longrightarrow> resourceUploadRead dconn ud =
           ([ErrorDiag (''reading DeviceFarm Upload ('' @ ud_Id ud @ ''): '' @ Text err)], ud))
   \<and> (\<forall>err. UpdateUpload_response dconn \<lparr>UuIn_Arn = ud_Id ud,
             UuIn_Name = (if ud_HasChange_name ud then Some (ud_name ud) else None),
             UuIn_ContentType =
               (if ud_HasChange_content_type ud then Some (ud_content_type ud) else None)\<rparr> = Inl err
      \<longrightarrow> resourceUploadUpdate dconn ud =
           ([ErrorDiag (''updating DeviceFarm Upload ('' @ ud_Id ud @ ''): '' @ Text err)], ud))
   \<and> (\<forall>err. UpdateUpload_response dconn \<lparr>UuIn_Arn = ud_Id ud,
             UuIn_Name = (if ud_HasChange_name ud then Some (ud_name ud) else None),
             UuIn_ContentType =
               (if ud_HasChange_content_type ud then Some (ud_content_type ud) else None)\<rparr> = Inr ()
        \<and> FindUploadByARN_result dconn (ud_Id ud) = Inl (ApiError err)
      \<longrightarrow> resourceUploadUpdate dconn ud =
           ([ErrorDiag (''reading DeviceFarm Upload ('' @ ud_Id ud @ ''): '' @ Text err)], ud))
   \<and> (\<forall>err. DeleteUpload_response dconn (ud_Id ud) = Inl err
        \<and> \<not> ErrCodeEquals err devicefarm_ErrCodeNotFoundException
      \<longrightarrow> resourceUploadDelete dconn ud =
           [ErrorDiag (''deleting DeviceFarm Upload: '' @ Text err)])"
proof -
  have cr: "\<forall>res h' es1 ev es2.
      resourceWebACLCreate conn d h = (res, h') \<and> drop (length h) h' = es1 @ ev # es2
      \<and> isOtherError d ev
      \<longrightarrow> es2 = [] \<and> (\<exists>err msg. snd ev = Some err
                          \<and> diagnosticsOf res = Some [ErrorDiag (msg @ Text err)])"
  proof (intro allI impI, elim conjE)
    fix res h' es1 ev es2
    assume "resourceWebACLCreate conn d h = (res, h')" "drop (length h) h' = es1 @ ev # es2"
      "isOtherError d ev"
    from surfacesOther_last [OF create_surfaces [OF this(1)] this(2,3)]
    show "es2 = [] \<and> (\<exists>err msg. snd ev = Some err
                          \<and> diagnosticsOf res = Some [ErrorDiag (msg @ Text err)])" .
  qed
  have rd: "\<forall>res h' es1 ev es2.
      resourceWebACLRead conn d h = (res, h') \<and> drop (length h) h' = es1 @ ev # es2
      \<and> isOtherError d ev
      \<longrightarrow> es2 = [] \<and> (\<exists>err msg. snd ev = Some err
                          \<and> diagnosticsOf res = Some [ErrorDiag (msg @ Text err)])"
  proof (intro allI impI, elim conjE)
    fix res h' es1 ev es2
    assume run: "resourceWebACLRead conn d h = (res, h')"
      and new: "drop (length h) h' = es1 @ ev # es2" and other: "isOtherError d ev"
    from read_surfaces [OF run, of d] obtain g where
      g: "h' = h @ [(CallGetWebACL \<lparr>GetIn_Id = d_Id d, GetIn_Name = d_name d,
                                       GetIn_Scope = d_scope d\<rparr>, g)]"
        "isOtherError d (CallGetWebACL \<lparr>GetIn_Id = d_Id d, GetIn_Name = d_name d,
                                       GetIn_Scope = d_scope d\<rparr>, g)
          \<longrightarrow> (\<exists>err msg. g = Some err \<and> diagnosticsOf res = Some [ErrorDiag (msg @ Text err)])"
      by blast
    let ?l = "(CallGetWebACL \<lparr>GetIn_Id = d_Id d, GetIn_Name = d_name d, GetIn_Scope = d_scope d\<rparr>, g)"
    have "drop (length h) h' = [] @ [?l]" using g(1) by simp
    with g(2) have "surfacesOther d (diagnosticsOf res) (drop (length h) h')"
      by (intro surfacesOtherI [of _ "[]" ?l]) auto
    from surfacesOther_last [OF this new other]
    show "es2 = [] \<and> (\<exists>err msg. snd ev = Some err
                          \<and> diagnosticsOf res = Some [ErrorDiag (msg @ Text err)])" .
  qed
  have up: "\<forall>res h' es1 ev es2.
      resourceWebACLUpdate conn d h = (res, h') \<and> drop (length h) h' = es1 @ ev # es2
      \<and> isOtherError d ev
      \<longrightarrow> es2 = [] \<and> (\<exists>err msg. snd ev = Some err
                          \<and> diagnosticsOf res = Some [ErrorDiag (msg @ Text err)])"
  proof (intro allI impI, elim conjE)
    fix res h' es1 ev es2
    assume "resourceWebACLUpdate conn d h = (res, h')" "drop (length h) h' = es1 @ ev # es2"
      "isOtherError d ev"
    from surfacesOther_last [OF update_surfaces [OF this(1)] this(2,3)]
    show "es2 = [] \<and> (\<exists>err msg. snd ev = Some err
                          \<and> diagnosticsOf res = Some [ErrorDiag (msg @ Text err)])" .
  qed
  have de: "\<forall>diags h' es1 ev es2.
      resourceWebACLDelete conn d h = (diags, h') \<and> drop (length h) h' = es1 @ ev # es2
      \<and> isOtherError d ev
      \<longrightarrow> es2 = [] \<and> (\<exists>err msg. snd ev = Some err \<and> diags = [ErrorDiag (msg @ Text err)])"
  proof (intro allI impI, elim conjE)
    fix diags h' es1 ev es2
    assume "resourceWebACLDelete conn d h = (diags, h')" "drop (length h) h' = es1 @ ev # es2"
      "isOtherError d ev"
    from surfacesOther_last [OF delete_surfaces [OF this(1)] this(2,3)]
    show "es2 = [] \<and> (\<exists>err msg. snd ev = Some err \<and> diags = [ErrorDiag (msg @ Text err)])"
      by simp
  qed
  show ?thesis
    apply (rule conjI [OF cr])
    apply (rule conjI [OF rd])
    apply (rule conjI [OF up])
    apply (rule conjI [OF de])
    apply (simp add: resourceCertificateCreate_def resourceCertificateRead_def
      resourceCertificateUpdate_def resourceCertificateDelete_def resourceUploadCreate_def
      resourceUploadRead_def resourceUploadUpdate_def resourceUploadDelete_def AppendErrorf_def
      Let_def)
    done
qed


lemma update_first_read_fails_run:
  "resourceWebACLUpdate
     (scriptedClient [] [Inl (AwsError ''WAFInternalErrorException'' ''internal failure'')] [] [] 0)
     exampleData []
   = (Return ([ErrorDiag ''reading WAFv2 WebACL (abc): internal failure''], exampleData),
      [(CallGetWebACL \<lparr>GetIn_Id = ''abc'', GetIn_Name = ''acl'', GetIn_Scope = ''REGIONAL''\<rparr>,
        Some (AwsError ''WAFInternalErrorException'' ''internal failure''))])"
  by (simp add: run_defs)

theorem other_errors_surfaced_witness:
  "(\<exists>msg. diagnosticsOf (fst (resourceWebACLUpdate
        (scriptedClient [] [Inl (AwsError ''WAFInternalErrorException'' ''internal failure'')] [] [] 0)
        exampleData []))
      = Some [ErrorDiag (msg @ ''internal failure'')])
   \<and> resourceCertificateCreate
       (exampleTransferConn (Inr (Some ''cert-9''))
          (Inl (ApiError (AwsError ''InternalServiceError'' ''service failure''))) (Inr ()) (Inr ()))
       exampleCertificateData
     = ([ErrorDiag ''reading Transfer Certificate (cert-9): service failure''],
        exampleCertificateData\<lparr>cd_Id := ''cert-9''\<rparr>)"
proof -
  let ?ie = "AwsError ''WAFInternalErrorException'' ''internal failure''"
  let ?conn = "scriptedClient [] [Inl ?ie] [] [] 0"
  let ?ev = "(CallGetWebACL \<lparr>GetIn_Id = ''abc'', GetIn_Name = ''acl'', GetIn_Scope = ''REGIONAL''\<rparr>,
              Some ?ie)"
  let ?se = "AwsError ''InternalServiceError'' ''service failure''"
  let ?tconn = "exampleTransferConn (Inr (Some ''cert-9'')) (Inl (ApiError ?se)) (Inr ()) (Inr ())"
  let ?dconn = "exampleDeviceFarmConn (Inr None) (Inl EmptyResultError) (Inr ()) (Inr ())"
  note inst = other_errors_surfaced [of ?conn exampleData "[]" ?tconn exampleCertificateData
      ?dconn exampleUploadData]
  have other: "isOtherError exampleData ?ev"
    by (simp add: isOtherError_def ErrCodeEquals_def WAFNonexistentItemException_def
        WAFOptimisticLockException_def)
  have new: "drop (length ([] :: event list)) [?ev] = [] @ ?ev # []"
    by simp
  from inst [THEN conjunct2, THEN conjunct2, THEN conjunct1, rule_format,
      of "Return ([ErrorDiag ''reading WAFv2 WebACL (abc): internal failure''], exampleData)"
         "[?ev]" "[]" ?ev "[]"]
    update_first_read_fails_run new other
  have "\<exists>err msg. snd ?ev = Some err
      \<and> diagnosticsOf (Return ([ErrorDiag ''reading WAFv2 WebACL (abc): internal failure''], exampleData))
          = Some [ErrorDiag (msg @ Text err)]"
    by blast
  then have a: "\<exists>msg. diagnosticsOf (fst (resourceWebACLUpdate ?conn exampleData []))
      = Some [ErrorDiag (msg @ ''internal failure'')]"
    unfolding update_first_read_fails_run by auto
  have b: "resourceCertificateCreate ?tconn exampleCertificateData
     = ([ErrorDiag ''reading Transfer Certificate (cert-9): service failure''],
        exampleCertificateData\<lparr>cd_Id := ''cert-9''\<rparr>)"
    using inst [THEN conjunct2, THEN conjunct2, THEN conjunct2, THEN conjunct2, THEN conjunct2,
        THEN conjunct1, rule_format, of "Some ''cert-9''" ?se]
    by (simp add: exampleTransferConn_def)
  from a b show ?thesis by blast
qed

text \<open>
  The re-sent mutation after a conflict is outside the amended claim: of its errors only
  the optimistic-lock conflict is looked at, as in this run, where the re-sent
  \<open>UpdateWebACL\<close> fails with an internal error and the callback returns no diagnostics.
\<close>

lemma retried_update_error_not_returned:
  "resourceWebACLUpdate
     (scriptedClient [] [Inr (Some (exampleOutput ''t0'' [])), Inr (Some (exampleOutput ''t2'' []))]
        [Inl (AwsError ''WAFOptimisticLockException'' ''stale''),
         Inl (AwsError ''WAFInternalErrorException'' ''internal failure'')] [] 0)
     exampleData []
   = (Return ([], exampleData),
      [(CallGetWebACL \<lparr>GetIn_Id = ''abc'', GetIn_Name = ''acl'', GetIn_Scope = ''REGIONAL''\<rparr>, None),
       (CallUpdateWebACL \<lparr>UpdIn_Id = ''abc'', UpdIn_LockToken = Some ''t1'', UpdIn_Name = ''acl'',
                           UpdIn_Rules = [], UpdIn_Scope = ''REGIONAL'', UpdIn_Settings = []\<rparr>,
        Some (AwsError ''WAFOptimisticLockException'' ''stale'')),
       (CallGetWebACL \<lparr>GetIn_Id = ''abc'', GetIn_Name = ''acl'', GetIn_Scope = ''REGIONAL''\<rparr>, None),
       (CallUpdateWebACL \<lparr>UpdIn_Id = ''abc'', UpdIn_LockToken = Some ''t2'', UpdIn_Name = ''acl'',
                           UpdIn_Rules = [], UpdIn_Scope = ''REGIONAL'', UpdIn_Settings = []\<rparr>,
        Some (AwsError ''WAFInternalErrorException'' ''internal failure''))])"
  by (simp add: run_defs)

end
